theory Spec2Isabelle
  imports Main
begin

section \<open>Remote job status classification\<close>

text \<open>
  The provider reports the status of a remote torrent job as a string. The RealDebrid
  module exists in two variants in the repository. The predicates of the later variant
  (the one with availability caching) keep the source's names; those of the earlier
  variant carry the suffix \<open>_v1\<close>.
\<close>

type_synonym status = string

definition statusError :: "status \<Rightarrow> bool" where
  "statusError s = (s \<in> set [''error'', ''magnet_error''])"

definition statusMagnetError :: "status \<Rightarrow> bool" where
  "statusMagnetError s = (s = ''magnet_error'')"

definition statusOpening :: "status \<Rightarrow> bool" where
  "statusOpening s = (s = ''magnet_conversion'')"

definition statusWaitingSelection :: "status \<Rightarrow> bool" where
  "statusWaitingSelection s = (s = ''waiting_files_selection'')"

definition statusDownloading :: "status \<Rightarrow> bool" where
  "statusDownloading s = (s \<in> set [''downloading'', ''uploading'', ''queued''])"

definition statusReady :: "status \<Rightarrow> bool" where
  "statusReady s = (s \<in> set [''downloaded'', ''dead''])"

definition statusError_v1 :: "status \<Rightarrow> bool" where
  "statusError_v1 s = (s \<in> set [''error'', ''magnet_error'', ''dead''])"

definition statusMagnetError_v1 :: "status \<Rightarrow> bool" where
  "statusMagnetError_v1 s = (s = ''magnet_error'')"

definition statusOpening_v1 :: "status \<Rightarrow> bool" where
  "statusOpening_v1 s = (s = ''magnet_conversion'')"

definition statusWaitingSelection_v1 :: "status \<Rightarrow> bool" where
  "statusWaitingSelection_v1 s = (s = ''waiting_files_selection'')"

definition statusDownloading_v1 :: "status \<Rightarrow> bool" where
  "statusDownloading_v1 s = (s \<in> set [''downloading'', ''uploading'', ''queued''])"

definition statusReady_v1 :: "status \<Rightarrow> bool" where
  "statusReady_v1 s = (s \<in> set [''downloaded''])"


section \<open>Availability results of the provider\<close>

text \<open>
  The instant-availability answer maps every info hash to its hoster results. A hoster
  result is either falsy or an array (nothing cached), or an object that maps a hoster
  name to the list of cached copies; a copy is an object that maps a file id to the file.
  Objects are association lists in key order, so \<open>Object.keys\<close> is \<open>map fst\<close> and
  \<open>Object.values\<close> is \<open>map snd\<close>.
\<close>

record cached_file =
  filename :: string
  filesize :: nat

type_synonym cached_copy = "(string \<times> cached_file) list"

datatype hoster_results =
    HosterEmpty
  | HosterObject "(string \<times> cached_copy list) list"

text \<open>
  \<open>sort((a, b) => b.length - a.length)\<close>: the stable sort of the runtime, by descending
  length.
\<close>

definition sortByLengthDesc :: "'a list list \<Rightarrow> 'a list list" where
  "sortByLengthDesc gs = sort_key (\<lambda>g. - int (length g)) gs"

text \<open>
  The last filter of \<open>getCachedIds\<close>: index 0 is kept, a later group is kept when some
  id of it is not in \<open>array[0]\<close>.
\<close>

fun dropDominated :: "string list list \<Rightarrow> string list list" where
  "dropDominated [] = []"
| "dropDominated (g0 # rest) = g0 # filter (\<lambda>cached. list_ex (\<lambda>i. i \<notin> set g0) cached) rest"

text \<open>\<open>isVideo\<close> of \<open>lib/extension\<close> is a parameter of the model.\<close>

fun getCachedIds :: "(string \<Rightarrow> bool) \<Rightarrow> hoster_results \<Rightarrow> string list list" where
  "getCachedIds isVideo HosterEmpty = []"
| "getCachedIds isVideo (HosterObject hosters) =
     dropDominated
       (sortByLengthDesc
         (map (\<lambda>cached. map fst cached)
           (filter (\<lambda>cached. cached \<noteq> [] \<and> list_all (\<lambda>file. isVideo (filename file)) (map snd cached))
             (concat (map snd hosters)))))"

section \<open>Values of the runtime, promises and effects\<close>

text \<open>
  A rejection value is whatever the provider client or the code gives to \<open>reject\<close>:
  \<open>undefined\<close> or \<open>null\<close>, a string, an error object with an optional numeric
  \<open>code\<close> and an optional \<open>message\<close>, the \<open>TypeError\<close> of the runtime (reading a
  property of \<open>undefined\<close>), or the constant \<open>BadTokenError\<close> of \<open>mochHelper\<close>.
\<close>

datatype js_error =
    Nullish
  | Message string
  | ErrorObject "int option" "string option"
  | TypeError string
  | BadTokenError

fun truthy :: "js_error \<Rightarrow> bool" where
  "truthy Nullish = False"
| "truthy (Message s) = (s \<noteq> [])"
| "truthy (ErrorObject c m) = True"
| "truthy (TypeError m) = True"
| "truthy BadTokenError = True"

text \<open>\<open>error && error.code\<close>, read as a number.\<close>

fun error_code :: "js_error \<Rightarrow> int option" where
  "error_code (ErrorObject c m) = c"
| "error_code e = None"

text \<open>\<open>error && error.message\<close>.\<close>

fun error_message :: "js_error \<Rightarrow> string option" where
  "error_message (ErrorObject c m) = m"
| "error_message (TypeError m) = Some m"
| "error_message e = None"

text \<open>
  A promise settles with a value or a rejection. \<open>OutOfFuel\<close> is the answer of a
  recursion that was cut off by its fuel: it stands for a call that has not returned.
\<close>

datatype 'a outcome = Resolved 'a | Rejected js_error | OutOfFuel

type_synonym ('s, 'a) io = "'s \<Rightarrow> 'a outcome \<times> 's"

definition resolve_io :: "'a \<Rightarrow> ('s, 'a) io" where
  "resolve_io v s = (Resolved v, s)"

definition reject_io :: "js_error \<Rightarrow> ('s, 'a) io" where
  "reject_io e s = (Rejected e, s)"

text \<open>\<open>await m\<close> followed by \<open>f\<close>, or \<open>m.then(f)\<close>.\<close>

definition bind_io :: "('s, 'a) io \<Rightarrow> ('a \<Rightarrow> ('s, 'b) io) \<Rightarrow> ('s, 'b) io" where
  "bind_io m f s =
     (case m s of
        (Resolved v, s') \<Rightarrow> f v s'
      | (Rejected e, s') \<Rightarrow> (Rejected e, s')
      | (OutOfFuel, s') \<Rightarrow> (OutOfFuel, s'))"

text \<open>\<open>m.catch(h)\<close>.\<close>

definition catch_io :: "('s, 'a) io \<Rightarrow> (js_error \<Rightarrow> ('s, 'a) io) \<Rightarrow> ('s, 'a) io" where
  "catch_io m h s =
     (case m s of
        (Resolved v, s') \<Rightarrow> (Resolved v, s')
      | (Rejected e, s') \<Rightarrow> h e s'
      | (OutOfFuel, s') \<Rightarrow> (OutOfFuel, s'))"

text \<open>
  \<open>Promise.all\<close> over requests that were all issued, in list order. Every request
  runs. When no request is rejected the answer is the list of the values. Otherwise it
  is the rejection that settled first in time, which the order of the list does not
  tell: the parameter \<open>first\<close> picks it, by its position among the rejections.
\<close>

fun settle_all :: "('s, 'a) io list \<Rightarrow> 's \<Rightarrow> 'a outcome list \<times> 's" where
  "settle_all [] s = ([], s)"
| "settle_all (m # ms) s =
     (case m s of (r, s') \<Rightarrow>
        (case settle_all ms s' of (rs, s'') \<Rightarrow> (r # rs, s'')))"

fun rejections :: "'a outcome list \<Rightarrow> js_error list" where
  "rejections [] = []"
| "rejections (Rejected e # rs) = e # rejections rs"
| "rejections (r # rs) = rejections rs"

fun resolutions :: "'a outcome list \<Rightarrow> 'a list" where
  "resolutions [] = []"
| "resolutions (Resolved v # rs) = v # resolutions rs"
| "resolutions (r # rs) = resolutions rs"

definition promise_all ::
  "('s \<Rightarrow> js_error list \<Rightarrow> nat) \<Rightarrow> ('s, 'a) io list \<Rightarrow> ('s, 'a list) io" where
  "promise_all first ms s =
     (case settle_all ms s of (rs, s') \<Rightarrow>
        if list_ex (\<lambda>r. case r of OutOfFuel \<Rightarrow> True | _ \<Rightarrow> False) rs then (OutOfFuel, s')
        else
          (case rejections rs of
             [] \<Rightarrow> (Resolved (resolutions rs), s')
           | e # es \<Rightarrow> (Rejected ((e # es) ! (first s' (e # es) mod length (e # es))), s')))"

section \<open>Strings\<close>

definition digitChar :: "nat \<Rightarrow> char" where
  "digitChar d = ''0123456789'' ! (d mod 10)"

function showNat :: "nat \<Rightarrow> string" where
  "showNat n = (if n < 10 then [digitChar n] else showNat (n div 10) @ [digitChar (n mod 10)])"
  by pat_completeness auto
termination
  by (relation "measure id") auto

text \<open>The decimal text of an integer, as a template literal prints it.\<close>

definition showInt :: "int \<Rightarrow> string" where
  "showInt i = (if i < 0 then CHR ''-'' # showNat (nat (- i)) else showNat (nat i))"

definition toLowerChar :: "char \<Rightarrow> char" where
  "toLowerChar c =
     (case map_of (zip ''ABCDEFGHIJKLMNOPQRSTUVWXYZ'' ''abcdefghijklmnopqrstuvwxyz'') c of
        Some l \<Rightarrow> l
      | None \<Rightarrow> c)"

definition toLowerCase :: "string \<Rightarrow> string" where
  "toLowerCase s = map toLowerChar s"

definition isDigit :: "char \<Rightarrow> bool" where
  "isDigit c = (c \<in> set ''0123456789'')"

text \<open>\<open>parts.join(',')\<close>.\<close>

fun joinComma :: "string list \<Rightarrow> string" where
  "joinComma [] = []"
| "joinComma [p] = p"
| "joinComma (p # q # ps) = p @ CHR '','' # joinComma (q # ps)"

fun startsWith :: "string \<Rightarrow> string \<Rightarrow> bool" where
  "startsWith s [] = True"
| "startsWith [] (p # ps) = False"
| "startsWith (c # cs) (p # ps) = (c = p \<and> startsWith cs ps)"

text \<open>\<open>s.includes(v)\<close>.\<close>

fun includesStr :: "string \<Rightarrow> string \<Rightarrow> bool" where
  "includesStr [] v = (v = [])"
| "includesStr (c # cs) v = (startsWith (c # cs) v \<or> includesStr cs v)"

section \<open>The provider client and its jobs\<close>

text \<open>
  A remote job as the provider reports it. An entry of the job list, and the object
  \<open>{ id: newTorrentId }\<close> that the code builds itself, may lack \<open>status\<close> and \<open>files\<close>.
\<close>

record rd_file =
  file_id :: int
  file_path :: string
  file_bytes :: nat
  file_selected :: bool

record torrent =
  torrent_id :: string
  torrent_status :: "status option"
  torrent_files :: "rd_file list option"
  torrent_links :: "string list"
  torrent_hash :: string

text \<open>
  Every call to the provider and every \<open>delay\<close> is recorded. The client is an oracle: its
  answer to a call may depend on everything that happened before, which covers any
  deterministic stateful provider account. Requests that are in flight together are
  answered in an order of the provider's own: \<open>first_rejected\<close> tells, for the
  rejections of such requests in the order of issue, the position of the one that
  arrived first.
\<close>

datatype event =
    TorrentsGet
  | TorrentsInfo string
  | AddMagnet string
  | SelectFiles string string
  | UnrestrictLink string
  | InstantAvailability "string list"
  | Delay nat

datatype availability_response =
    NonObject string
  | NullResponse
  | ResponseObject "(string \<times> hoster_results) list"

record rd_client =
  torrents_get :: "event list \<Rightarrow> js_error + torrent list option"
  torrents_info :: "event list \<Rightarrow> string \<Rightarrow> js_error + torrent option"
  torrents_addMagnet :: "event list \<Rightarrow> string \<Rightarrow> js_error + string"
  torrents_selectFiles :: "event list \<Rightarrow> string \<Rightarrow> string \<Rightarrow> js_error + unit"
  unrestrict_link :: "event list \<Rightarrow> string \<Rightarrow> js_error + string"
  torrents_instantAvailability :: "event list \<Rightarrow> string list \<Rightarrow> js_error + availability_response"
  first_rejected :: "event list \<Rightarrow> js_error list \<Rightarrow> nat"

text \<open>
  The world of the RealDebrid module: the calls made so far and the availability cache
  of \<open>lib/cache\<close>.
\<close>

record world =
  calls :: "event list"
  availability_cache :: "string \<rightharpoonup> string list list"

definition rd_call :: "event \<Rightarrow> (event list \<Rightarrow> js_error + 'a) \<Rightarrow> (world, 'a) io" where
  "rd_call ev answer w =
     (case answer (calls w) of
        Inl e \<Rightarrow> (Rejected e, w\<lparr>calls := calls w @ [ev]\<rparr>)
      | Inr v \<Rightarrow> (Resolved v, w\<lparr>calls := calls w @ [ev]\<rparr>))"

definition delay :: "nat \<Rightarrow> world \<Rightarrow> world" where
  "delay ms w = w\<lparr>calls := calls w @ [Delay ms]\<rparr>"

text \<open>
  What the module imports and the repository does not hold under \<open>src/\<close>: \<open>isVideo\<close> and
  \<open>isArchive\<close> of \<open>lib/extension\<close>, \<open>getMagnetLink\<close> of \<open>lib/magnetHelper\<close>, and
  \<open>JSON.stringify\<close> on an error and on a job. They are parameters of the model.
\<close>

record library =
  lib_isVideo :: "string \<Rightarrow> bool"
  lib_isArchive :: "string \<Rightarrow> bool"
  lib_getMagnetLink :: "string \<Rightarrow> js_error + string"
  lib_stringifyError :: "js_error \<Rightarrow> string"
  lib_stringifyTorrent :: "torrent option \<Rightarrow> string"

text \<open>The constants of \<open>./static\<close>, and what \<open>resolve\<close> answers.\<close>

datatype static_response =
    DOWNLOADING
  | FAILED_OPENING
  | FAILED_DOWNLOAD
  | FAILED_ACCESS
  | FAILED_RAR

datatype resolved = Link string | Static static_response

definition MIN_SIZE :: nat where
  "MIN_SIZE = 5 * 1024 * 1024"

definition NON_BLACKLIST_ERRORS :: "string list" where
  "NON_BLACKLIST_ERRORS = [''ESOCKETTIMEDOUT'', ''EAI_AGAIN'', ''504 Gateway Time-out'']"

text \<open>\<open>torrent && p(torrent.status)\<close>; every status predicate is false on \<open>undefined\<close>.\<close>

definition statusOf :: "(status \<Rightarrow> bool) \<Rightarrow> torrent \<Rightarrow> bool" where
  "statusOf p t = (case torrent_status t of None \<Rightarrow> False | Some s \<Rightarrow> p s)"

definition accessDeniedError :: "js_error \<Rightarrow> bool" where
  "accessDeniedError error = (error_code error \<in> set [Some 9, Some 20])"

section \<open>The torrent lifecycle resolver\<close>

text \<open>
  The functions of the later variant of the RealDebrid module. A leading underscore of a
  source name is written as a trailing prime. Logging is not modelled. The parameter
  \<open>isBrowser\<close> is only passed along in the source and never read; it is left out.
  The oracle \<open>RD\<close> stands for \<open>new RealDebridClient(apiKey, options)\<close>.
\<close>

definition getTorrentInfo' :: "rd_client \<Rightarrow> string \<Rightarrow> (world, torrent option) io" where
  "getTorrentInfo' RD torrentId =
     (if torrentId = [] then reject_io (Message ''No RealDebrid torrentId provided'')
      else rd_call (TorrentsInfo torrentId) (\<lambda>h. torrents_info RD h torrentId))"

text \<open>
  The polling loop. The recursive call passes only \<open>pollCounter + 1\<close>, so \<open>pollRate\<close> and
  \<open>maxPollNumber\<close> are back at their defaults 2000 and 15 from the second round on.
\<close>

function openTorrent' ::
  "rd_client \<Rightarrow> string \<Rightarrow> nat \<Rightarrow> nat \<Rightarrow> nat \<Rightarrow> (world, torrent option) io" where
  "openTorrent' RD torrentId pollCounter pollRate maxPollNumber w =
     (case getTorrentInfo' RD torrentId w of
        (Resolved torrent, w') \<Rightarrow>
          (if (case torrent of None \<Rightarrow> False | Some t \<Rightarrow> statusOf statusOpening t)
              \<and> pollCounter < maxPollNumber
           then openTorrent' RD torrentId (pollCounter + 1) 2000 15 (delay pollRate w')
           else (Resolved torrent, w'))
      | (Rejected e, w') \<Rightarrow> (Rejected e, w')
      | (OutOfFuel, w') \<Rightarrow> (OutOfFuel, w'))"
  by pat_completeness auto
termination
  by (relation "measure (\<lambda>(RD, torrentId, pollCounter, pollRate, maxPollNumber, w).
        (if maxPollNumber = 15 then 0 else 16) + (15 - pollCounter))") auto

declare openTorrent'.simps [simp del]

text \<open>
  The ids that \<open>_selectTorrentFiles\<close> sends: \<open>fileIndex + 1\<close> when \<open>fileIndex\<close> is an
  integer, else the ids of the video files over \<open>MIN_SIZE\<close>, joined by commas.
\<close>

definition videoFileIds :: "library \<Rightarrow> rd_file list \<Rightarrow> int option \<Rightarrow> string" where
  "videoFileIds lib files fileIndex =
     (case fileIndex of
        Some i \<Rightarrow> showInt (i + 1)
      | None \<Rightarrow>
          joinComma (map (\<lambda>file. showInt (file_id file))
            (filter (\<lambda>file. file_bytes file > MIN_SIZE)
              (filter (\<lambda>file. lib_isVideo lib (file_path file)) files))))"

definition selectTorrentFiles' ::
  "library \<Rightarrow> rd_client \<Rightarrow> torrent \<Rightarrow> int option \<Rightarrow> (world, unit) io" where
  "selectTorrentFiles' lib RD torrent fileIndex =
     bind_io
       (if statusOf statusWaitingSelection torrent then resolve_io (Some torrent)
        else openTorrent' RD (torrent_id torrent) 0 2000 15)
       (\<lambda>torrent.
          case torrent of
            None \<Rightarrow> reject_io (Message ''Failed RealDebrid torrent file selection'')
          | Some t \<Rightarrow>
              (case torrent_files t of
                 None \<Rightarrow> reject_io (Message ''Failed RealDebrid torrent file selection'')
               | Some files \<Rightarrow>
                   if statusOf statusWaitingSelection t
                   then rd_call
                          (SelectFiles (torrent_id t) (videoFileIds lib files fileIndex))
                          (\<lambda>h. torrents_selectFiles RD h (torrent_id t)
                                  (videoFileIds lib files fileIndex))
                   else reject_io (Message ''Failed RealDebrid torrent file selection'')))"

definition createTorrentId' ::
  "library \<Rightarrow> rd_client \<Rightarrow> string \<Rightarrow> string option \<Rightarrow> (world, string) io" where
  "createTorrentId' lib RD infoHash cachedFileIds =
     bind_io (\<lambda>w. case lib_getMagnetLink lib infoHash of
                     Inl e \<Rightarrow> (Rejected e, w)
                   | Inr magnetLink \<Rightarrow> (Resolved magnetLink, w))
       (\<lambda>magnetLink.
          bind_io (rd_call (AddMagnet magnetLink) (\<lambda>h. torrents_addMagnet RD h magnetLink))
            (\<lambda>addedMagnetId.
               case cachedFileIds of
                 None \<Rightarrow> resolve_io addedMagnetId
               | Some ids \<Rightarrow>
                   if ids \<noteq> [] \<and> ids \<notin> set [''null'', ''undefined'']
                   then bind_io
                          (rd_call (SelectFiles addedMagnetId ids)
                             (\<lambda>h. torrents_selectFiles RD h addedMagnetId ids))
                          (\<lambda>u. resolve_io addedMagnetId)
                   else resolve_io addedMagnetId))"

definition recreateTorrentId' ::
  "library \<Rightarrow> rd_client \<Rightarrow> string \<Rightarrow> int option \<Rightarrow> (world, string) io" where
  "recreateTorrentId' lib RD infoHash fileIndex =
     bind_io (createTorrentId' lib RD infoHash None)
       (\<lambda>newTorrentId.
          bind_io
            (selectTorrentFiles' lib RD
               \<lparr>torrent_id = newTorrentId, torrent_status = None, torrent_files = None,
                torrent_links = [], torrent_hash = []\<rparr> fileIndex)
            (\<lambda>u. resolve_io newTorrentId))"

text \<open>
  The target file of \<open>_unrestrictLink\<close>, with its position in \<open>torrent.files\<close>: the first
  file whose id is \<open>fileIndex + 1\<close>, or else the largest selected file (the first of the
  stable sort by descending \<open>bytes\<close>). The position stands for the identity of the
  object, which \<open>selectedFiles.indexOf(targetFile)\<close> compares.
\<close>

definition targetFile :: "rd_file list \<Rightarrow> int option \<Rightarrow> (nat \<times> rd_file) option" where
  "targetFile files fileIndex =
     (case find (\<lambda>(k, file). Some (file_id file) = map_option (\<lambda>i. i + 1) fileIndex)
             (zip [0..<length files] files) of
        Some t \<Rightarrow> Some t
      | None \<Rightarrow>
          (case sort_key (\<lambda>(k, file). - int (file_bytes file))
                  (filter (\<lambda>(k, file). file_selected file) (zip [0..<length files] files)) of
             [] \<Rightarrow> None
           | t # ts \<Rightarrow> Some t))"

fun indexOf :: "'a list \<Rightarrow> 'a \<Rightarrow> nat option" where
  "indexOf [] x = None"
| "indexOf (y # ys) x = (if y = x then Some 0 else map_option Suc (indexOf ys x))"

text \<open>
  \<open>torrent.links.length === 1 ? torrent.links[0] : torrent.links[selectedFiles.indexOf(targetFile)]\<close>;
  an index out of range or \<open>-1\<close> reads \<open>undefined\<close>.
\<close>

definition fileLink :: "string list \<Rightarrow> (nat \<times> rd_file) list \<Rightarrow> (nat \<times> rd_file) \<Rightarrow> string option" where
  "fileLink links selectedFiles target =
     (case links of
        [l] \<Rightarrow> Some l
      | ls \<Rightarrow>
          (case indexOf selectedFiles target of
             None \<Rightarrow> None
           | Some k \<Rightarrow> if k < length ls then Some (ls ! k) else None))"

text \<open>
  The rejection \<open>No RealDebrid links found for ${torrent.hash} [${fileIndex}]\<close>; an
  absent \<open>fileIndex\<close> prints as \<open>undefined\<close>.
\<close>

definition noLinksFound :: "torrent \<Rightarrow> int option \<Rightarrow> js_error" where
  "noLinksFound torrent fileIndex =
     Message (''No RealDebrid links found for '' @ torrent_hash torrent @ '' [''
              @ (case fileIndex of None \<Rightarrow> ''undefined'' | Some i \<Rightarrow> showInt i) @ '']'')"

text \<open>
  \<open>_retryCreateTorrent\<close>, \<open>_unrestrictLink\<close> and \<open>_unrestrictFileLink\<close> call one another:
  an unrestrict call that fails with code 19 recreates the job, and a recreated job that
  is ready is unrestricted again. Nothing in the source bounds this, so the model takes
  fuel, spent at every \<open>_retryCreateTorrent\<close>.
\<close>

fun retryCreateTorrent' ::
  "nat \<Rightarrow> library \<Rightarrow> rd_client \<Rightarrow> string \<Rightarrow> int option \<Rightarrow> (world, resolved) io"
and unrestrictLink' ::
  "nat \<Rightarrow> library \<Rightarrow> rd_client \<Rightarrow> torrent \<Rightarrow> int option \<Rightarrow> (world, resolved) io"
and unrestrictFileLink' ::
  "nat \<Rightarrow> library \<Rightarrow> rd_client \<Rightarrow> string \<Rightarrow> torrent \<Rightarrow> int option \<Rightarrow> (world, resolved) io"
where
  "retryCreateTorrent' 0 lib RD infoHash fileIndex = (\<lambda>w. (OutOfFuel, w))"
| "retryCreateTorrent' (Suc n) lib RD infoHash fileIndex =
     bind_io (recreateTorrentId' lib RD infoHash fileIndex)
       (\<lambda>newTorrentId.
          bind_io (getTorrentInfo' RD newTorrentId)
            (\<lambda>newTorrent.
               case newTorrent of
                 None \<Rightarrow> resolve_io (Static FAILED_DOWNLOAD)
               | Some t \<Rightarrow>
                   if statusOf statusReady t then unrestrictLink' n lib RD t fileIndex
                   else resolve_io (Static FAILED_DOWNLOAD)))"
| "unrestrictLink' n lib RD torrent fileIndex =
     (case torrent_files torrent of
        None \<Rightarrow> reject_io (TypeError ''Cannot read properties of undefined (reading 'find')'')
      | Some files \<Rightarrow>
          (case targetFile files fileIndex of
             None \<Rightarrow> reject_io (TypeError ''Cannot read properties of undefined (reading 'selected')'')
           | Some target \<Rightarrow>
               if \<not> file_selected (snd target)
               then bind_io (recreateTorrentId' lib RD (toLowerCase (torrent_hash torrent)) fileIndex)
                      (\<lambda>u. resolve_io (Static DOWNLOADING))
               else
                 (let selectedFiles =
                        filter (\<lambda>(k, file). file_selected file) (zip [0..<length files] files)
                  in case fileLink (torrent_links torrent) selectedFiles target of
                       None \<Rightarrow> reject_io (noLinksFound torrent fileIndex)
                     | Some link \<Rightarrow>
                         if link = [] then reject_io (noLinksFound torrent fileIndex)
                         else unrestrictFileLink' n lib RD link torrent fileIndex)))"
| "unrestrictFileLink' n lib RD link torrent fileIndex =
     catch_io
       (bind_io (rd_call (UnrestrictLink link) (\<lambda>h. unrestrict_link RD h link))
          (\<lambda>download.
             if lib_isArchive lib download then resolve_io (Static FAILED_RAR)
             else resolve_io (Link download)))
       (\<lambda>error.
          case error of
            Nullish \<Rightarrow> reject_io (TypeError ''Cannot read properties of undefined (reading 'code')'')
          | e \<Rightarrow>
              if error_code e = Some 19
              then retryCreateTorrent' n lib RD (toLowerCase (torrent_hash torrent)) fileIndex
              else reject_io e)"

text \<open>
  \<open>_findBestFitTorrent\<close>. A job whose info is missing, or that has no \<open>files\<close>, makes the
  filter throw; the caller's \<open>catch\<close> turns that into the creation of a new job.
\<close>

definition findBestFitTorrent' ::
  "rd_client \<Rightarrow> torrent list \<Rightarrow> int option \<Rightarrow> (world, torrent option) io" where
  "findBestFitTorrent' RD torrents fileIndex =
     (case torrents of
        [t] \<Rightarrow> resolve_io (Some t)
      | ts \<Rightarrow>
          bind_io (promise_all (\<lambda>w. first_rejected RD (calls w))
                     (map (\<lambda>t. getTorrentInfo' RD (torrent_id t)) ts))
            (\<lambda>torrentInfos.
               if list_ex (\<lambda>info. case info of None \<Rightarrow> True | Some t \<Rightarrow> torrent_files t = None)
                    torrentInfos
               then reject_io (TypeError ''Cannot read properties of undefined (reading 'files')'')
               else
                 (let bestFitTorrents =
                        sort_key (\<lambda>t. - int (length (torrent_links t)))
                          (filter
                             (\<lambda>t. list_ex
                                     (\<lambda>f. Some (file_id f) = map_option (\<lambda>i. i + 1) fileIndex
                                           \<and> file_selected f)
                                     (case torrent_files t of None \<Rightarrow> [] | Some fs \<Rightarrow> fs))
                             (concat (map (\<lambda>info. case info of None \<Rightarrow> [] | Some t \<Rightarrow> [t])
                                        torrentInfos)))
                  in resolve_io
                       (case bestFitTorrents of
                          b # bs \<Rightarrow> Some b
                        | [] \<Rightarrow> (case ts of [] \<Rightarrow> None | t # ts' \<Rightarrow> Some t)))))"

definition findTorrent' ::
  "rd_client \<Rightarrow> string \<Rightarrow> int option \<Rightarrow> (world, string) io" where
  "findTorrent' RD infoHash fileIndex =
     bind_io (rd_call TorrentsGet (torrents_get RD))
       (\<lambda>answer.
          let torrents = (case answer of None \<Rightarrow> [] | Some ts \<Rightarrow> ts);
              foundTorrents =
                filter (\<lambda>torrent. \<not> statusOf statusError torrent)
                  (filter (\<lambda>torrent. toLowerCase (torrent_hash torrent) = infoHash) torrents)
          in bind_io (findBestFitTorrent' RD foundTorrents fileIndex)
               (\<lambda>foundTorrent.
                  case foundTorrent of
                    None \<Rightarrow> reject_io (Message ''No recent torrent found'')
                  | Some t \<Rightarrow>
                      if torrent_id t = [] then reject_io (Message ''No recent torrent found'')
                      else resolve_io (torrent_id t)))"

definition createOrFindTorrentId' ::
  "library \<Rightarrow> rd_client \<Rightarrow> string \<Rightarrow> string option \<Rightarrow> int option \<Rightarrow> (world, string) io" where
  "createOrFindTorrentId' lib RD infoHash cachedFileIds fileIndex =
     catch_io (findTorrent' RD infoHash fileIndex)
       (\<lambda>error. createTorrentId' lib RD infoHash cachedFileIds)"

text \<open>
  \<open>_resolve\<close>: the dispatch on the status of the located job. The selection of the
  waiting or opening job is \<open>_selectTorrentFiles(RD, torrent)\<close>, without \<open>fileIndex\<close>.
\<close>

definition resolve' ::
  "nat \<Rightarrow> library \<Rightarrow> rd_client \<Rightarrow> string \<Rightarrow> string option \<Rightarrow> int option \<Rightarrow> (world, resolved) io" where
  "resolve' fuel lib RD infoHash cachedEntryInfo fileIndex =
     bind_io (createOrFindTorrentId' lib RD infoHash cachedEntryInfo fileIndex)
       (\<lambda>torrentId.
          bind_io (getTorrentInfo' RD torrentId)
            (\<lambda>torrent.
               case torrent of
                 None \<Rightarrow>
                   reject_io (Message (''Failed RealDebrid adding torrent ''
                                        @ lib_stringifyTorrent lib None))
               | Some t \<Rightarrow>
                   if statusOf statusReady t then unrestrictLink' fuel lib RD t fileIndex
                   else if statusOf statusDownloading t then resolve_io (Static DOWNLOADING)
                   else if statusOf statusMagnetError t then resolve_io (Static FAILED_OPENING)
                   else if statusOf statusError t then retryCreateTorrent' fuel lib RD infoHash fileIndex
                   else if statusOf statusWaitingSelection t \<or> statusOf statusOpening t
                   then catch_io
                          (bind_io (selectTorrentFiles' lib RD t None)
                             (\<lambda>u. resolve_io (Static DOWNLOADING)))
                          (\<lambda>error. resolve_io (Static FAILED_OPENING))
                   else reject_io (Message (''Failed RealDebrid adding torrent ''
                                             @ lib_stringifyTorrent lib (Some t)))))"

text \<open>\<open>resolve\<close>, the exported entry.\<close>

definition resolve ::
  "nat \<Rightarrow> library \<Rightarrow> rd_client \<Rightarrow> string \<Rightarrow> string option \<Rightarrow> int option \<Rightarrow> (world, resolved) io" where
  "resolve fuel lib RD infoHash cachedEntryInfo fileIndex =
     catch_io (resolve' fuel lib RD infoHash cachedEntryInfo fileIndex)
       (\<lambda>error.
          if accessDeniedError error then resolve_io (Static FAILED_ACCESS)
          else reject_io (Message (''Failed RealDebrid adding torrent ''
                                    @ lib_stringifyError lib error)))"

section \<open>The batch availability client\<close>

text \<open>
  Modelled from the spec: \<open>getCachedAvailabilityResults\<close> of \<open>lib/cache\<close> is not
  under \<open>src/\<close>. The availability cache is a key-value store of the cached file groups
  per hash; the lookup returns the subset of the hashes that is already present and
  makes no provider call.
\<close>

definition getCachedAvailabilityResults ::
  "string list \<Rightarrow> (world, string \<rightharpoonup> string list list) io" where
  "getCachedAvailabilityResults hashes w = (Resolved (availability_cache w |` set hashes), w)"

text \<open>
  Modelled from the spec: \<open>cacheAvailabilityResults\<close> of \<open>lib/cache\<close> is not under
  \<open>src/\<close>. Fresh results are merged into the cache and handed on.
\<close>

definition cacheAvailabilityResults ::
  "(string \<rightharpoonup> string list list) \<Rightarrow> (world, string \<rightharpoonup> string list list) io" where
  "cacheAvailabilityResults results w =
     (Resolved results, w\<lparr>availability_cache := availability_cache w ++ results\<rparr>)"

text \<open>
  Modelled from the spec: \<open>chunkArray\<close> of \<open>mochHelper\<close> is not under \<open>src/\<close>. The
  hashes are split, in order, into batches of at most the batch size; a batch size of 0,
  of which the spec says nothing, gives the one batch.
\<close>

function chunkArray :: "'a list \<Rightarrow> nat \<Rightarrow> 'a list list" where
  "chunkArray arr n =
     (if n < length arr \<and> 0 < n
      then take n arr # chunkArray (drop n arr) n
      else [arr])"
  by pat_completeness auto
termination
  by (relation "measure (\<lambda>(arr, n). length arr)") auto

declare chunkArray.simps [simp del]

definition processAvailabilityResults ::
  "(string \<Rightarrow> bool) \<Rightarrow> (string \<times> hoster_results) list \<Rightarrow> (string \<rightharpoonup> string list list)" where
  "processAvailabilityResults isVideo availabilityResults =
     foldl (\<lambda>processedResults (infoHash, hosterResults).
              processedResults(infoHash \<mapsto> getCachedIds isVideo hosterResults))
       Map.empty availabilityResults"

text \<open>
  The promise chain of \<open>_getInstantAvailable\<close> up to its \<open>catch\<close>: one provider call per
  batch, all issued; a response that is not an object is rejected with an \<open>Error\<close>, and
  \<open>null\<close> makes \<open>Object.entries\<close> throw; the results are merged, stored in the cache and
  laid over the cached results. When batches are rejected, the chain is rejected with the
  rejection that arrived first.
\<close>

definition availabilityRequest ::
  "library \<Rightarrow> rd_client \<Rightarrow> (string \<rightharpoonup> string list list) \<Rightarrow> string list list
     \<Rightarrow> (world, (string \<rightharpoonup> string list list) option) io" where
  "availabilityRequest lib RD cachedResults hashBatches =
     bind_io
       (promise_all (\<lambda>w. first_rejected RD (calls w))
          (map (\<lambda>batch.
                  bind_io
                    (rd_call (InstantAvailability batch)
                       (\<lambda>h. torrents_instantAvailability RD h batch))
                    (\<lambda>response.
                       case response of
                         NonObject text \<Rightarrow>
                           reject_io (ErrorObject None
                             (Some (''RD returned non JSON response: '' @ text)))
                       | NullResponse \<Rightarrow>
                           reject_io (TypeError ''Cannot convert undefined or null to object'')
                       | ResponseObject entries \<Rightarrow>
                           resolve_io (processAvailabilityResults (lib_isVideo lib) entries)))
             hashBatches))
       (\<lambda>results.
          bind_io (cacheAvailabilityResults (foldl (++) Map.empty results))
            (\<lambda>results. resolve_io (Some (cachedResults ++ results))))"

text \<open>
  \<open>NON_BLACKLIST_ERRORS.some(v => error && error.message && error.message.includes(v))\<close>.
\<close>

definition nonBlacklistError :: "js_error \<Rightarrow> bool" where
  "nonBlacklistError error =
     list_ex (\<lambda>v. truthy error \<and>
                   (case error_message error of
                      None \<Rightarrow> False
                    | Some m \<Rightarrow> m \<noteq> [] \<and> includesStr m v))
       NON_BLACKLIST_ERRORS"

text \<open>
  \<open>_getInstantAvailable(hashes, apiKey, retries = 3, maxChunkSize = 150)\<close>. The result
  \<open>None\<close> is \<open>undefined\<close>, the unknown availability. \<open>Math.ceil(maxChunkSize / 10)\<close> is
  \<open>(maxChunkSize + 9) div 10\<close>. The last branch evaluates \<open>error.message\<close> for the
  warning, which throws on \<open>undefined\<close> and \<open>null\<close>. The recursion takes fuel, since
  nothing bounds it for a batch size of 0.
\<close>

fun getInstantAvailable' ::
  "nat \<Rightarrow> library \<Rightarrow> rd_client \<Rightarrow> string list \<Rightarrow> int \<Rightarrow> nat
     \<Rightarrow> (world, (string \<rightharpoonup> string list list) option) io" where
  "getInstantAvailable' 0 lib RD hashes retries maxChunkSize = (\<lambda>w. (OutOfFuel, w))"
| "getInstantAvailable' (Suc n) lib RD hashes retries maxChunkSize =
     bind_io (getCachedAvailabilityResults hashes)
       (\<lambda>cachedResults.
          if filter (\<lambda>infoHash. cachedResults infoHash = None) hashes = []
          then resolve_io (Some cachedResults)
          else
            catch_io
              (availabilityRequest lib RD cachedResults
                 (chunkArray (filter (\<lambda>infoHash. cachedResults infoHash = None) hashes)
                    maxChunkSize))
              (\<lambda>error.
                 if truthy error \<and> error_code error = Some 8 then reject_io BadTokenError
                 else if \<not> truthy error \<and> maxChunkSize \<noteq> 1
                 then getInstantAvailable' n lib RD hashes (retries - 1)
                        ((maxChunkSize + 9) div 10)
                 else if retries > 0 \<and> nonBlacklistError error
                 then getInstantAvailable' n lib RD hashes (retries - 1) 150
                 else
                   (case error of
                      Nullish \<Rightarrow>
                        reject_io (TypeError
                          ''Cannot read properties of undefined (reading 'message')'')
                    | e \<Rightarrow> resolve_io None)))"

section \<open>The response cache\<close>

text \<open>
  The module \<open>lib/cache\<close> as it is under \<open>src/\<close>. The environment variables are
  parameters: \<open>NO_CACHE\<close> is whether the variable holds a non-empty text, and a TTL
  variable is the number it holds, if it is set to a non-empty text.
\<close>

record cache_env =
  env_NO_CACHE :: bool
  env_MONGODB_URI :: "string option"
  env_STREAM_TTL :: "nat option"
  env_STREAM_EMPTY_TTL :: "nat option"

definition GLOBAL_KEY_PREFIX :: string where
  "GLOBAL_KEY_PREFIX = ''torrentio-addon''"

definition STREAM_KEY_PREFIX :: string where
  "STREAM_KEY_PREFIX = GLOBAL_KEY_PREFIX @ ''|stream''"

definition STREAM_TTL :: "cache_env \<Rightarrow> nat" where
  "STREAM_TTL env = (case env_STREAM_TTL env of Some v \<Rightarrow> v | None \<Rightarrow> 4 * 60 * 60)"

definition STREAM_EMPTY_TTL :: "cache_env \<Rightarrow> nat" where
  "STREAM_EMPTY_TTL env = (case env_STREAM_EMPTY_TTL env of Some v \<Rightarrow> v | None \<Rightarrow> 30 * 60)"

text \<open>The cache that \<open>initiateRemoteCache\<close> builds: its store and its default TTL.\<close>

datatype cache_handle = MongoCache string nat | MemoryCache nat

definition initiateRemoteCache :: "cache_env \<Rightarrow> cache_handle option" where
  "initiateRemoteCache env =
     (if env_NO_CACHE env then None
      else case env_MONGODB_URI env of
             Some uri \<Rightarrow> (if uri \<noteq> [] then Some (MongoCache uri (STREAM_EMPTY_TTL env))
                          else Some (MemoryCache (STREAM_EMPTY_TTL env)))
           | None \<Rightarrow> Some (MemoryCache (STREAM_EMPTY_TTL env)))"

text \<open>
  The state of the add-on process: the entries of the remote cache, the clock in seconds,
  the jobs the scheduler holds, and a log of what was invoked.
\<close>

record 'v cache_entry =
  entry_value :: 'v
  entry_ttl :: nat
  entry_stored :: nat

record limiter_state =
  executing :: "nat list"
  waiting :: "nat list"

datatype addon_event = CacheWrap string | JobScheduled | JobDropped

record 'v addon_state =
  remote_store :: "string \<rightharpoonup> 'v list cache_entry"
  clock :: nat
  limiter_jobs :: limiter_state
  addon_log :: "addon_event list"

text \<open>
  Modelled from the spec: \<open>cache.wrap\<close> is the cache-manager library, which is not under
  \<open>src/\<close>. The spec's \<open>wrap(key, compute)\<close>: on a hit the cached value is returned and
  \<open>compute\<close> is not invoked; on a miss \<open>compute\<close> is invoked once, and its result is
  stored with the TTL that the policy function chooses and returned; an entry is gone
  when its TTL has expired. A rejected \<open>compute\<close> stores nothing.
\<close>

definition cache_wrap ::
  "string \<Rightarrow> ('v addon_state, 'v list) io \<Rightarrow> ('v list \<Rightarrow> nat) \<Rightarrow> ('v addon_state, 'v list) io" where
  "cache_wrap key method ttl s =
     (let s0 = s\<lparr>addon_log := addon_log s @ [CacheWrap key]\<rparr>;
          hit = (case remote_store s key of
                   None \<Rightarrow> None
                 | Some e \<Rightarrow> if clock s < entry_stored e + entry_ttl e then Some (entry_value e)
                             else None)
      in case hit of
           Some v \<Rightarrow> (Resolved v, s0)
         | None \<Rightarrow>
             (case method s0 of
                (Resolved v, s') \<Rightarrow>
                  (Resolved v,
                   s'\<lparr>remote_store := (remote_store s')
                        (key \<mapsto> \<lparr>entry_value = v, entry_ttl = ttl v, entry_stored = clock s'\<rparr>)\<rparr>)
              | (Rejected e, s') \<Rightarrow> (Rejected e, s')
              | (OutOfFuel, s') \<Rightarrow> (OutOfFuel, s')))"

definition cacheWrap ::
  "cache_env \<Rightarrow> cache_handle option \<Rightarrow> string \<Rightarrow> ('v addon_state, 'v list) io
     \<Rightarrow> ('v list \<Rightarrow> nat) \<Rightarrow> ('v addon_state, 'v list) io" where
  "cacheWrap env cache key method ttl =
     (if env_NO_CACHE env \<or> cache = None then method
      else cache_wrap key method ttl)"

definition cacheWrapStream ::
  "cache_env \<Rightarrow> string \<Rightarrow> ('v addon_state, 'v list) io \<Rightarrow> ('v addon_state, 'v list) io" where
  "cacheWrapStream env ident method =
     cacheWrap env (initiateRemoteCache env) (STREAM_KEY_PREFIX @ '':'' @ ident) method
       (\<lambda>streams. if streams \<noteq> [] then STREAM_TTL env else STREAM_EMPTY_TTL env)"

section \<open>The admission-controlled scheduler\<close>

text \<open>
  The options that the add-on gives to the limiter, with the strategy \<open>OVERFLOW\<close>:
  \<open>maxConcurrent\<close> is \<open>process.env.LIMIT_MAX_CONCURRENT || 20\<close>, \<open>highWater\<close> is
  \<open>process.env.LIMIT_QUEUE_SIZE || 50\<close> in the earlier variant of the add-on and
  \<open>|| 100\<close> in the later one. A variable of the environment is a text, and the add-on
  hands it on as it is: an option is the number of the default, or the text of a variable
  that is set and not empty.
\<close>

record limiter_env =
  env_LIMIT_MAX_CONCURRENT :: "string option"
  env_LIMIT_QUEUE_SIZE :: "string option"

datatype js_value = Number nat | Text string

definition envOr :: "string option \<Rightarrow> nat \<Rightarrow> js_value" where
  "envOr variable d =
     (case variable of
        None \<Rightarrow> Number d
      | Some t \<Rightarrow> if t = [] then Number d else Text t)"

record limiter_settings =
  setting_maxConcurrent :: js_value
  setting_highWater :: js_value

definition limiter_v1 :: "limiter_env \<Rightarrow> limiter_settings" where
  "limiter_v1 env =
     \<lparr>setting_maxConcurrent = envOr (env_LIMIT_MAX_CONCURRENT env) 20,
      setting_highWater = envOr (env_LIMIT_QUEUE_SIZE env) 50\<rparr>"

definition limiter :: "limiter_env \<Rightarrow> limiter_settings" where
  "limiter env =
     \<lparr>setting_maxConcurrent = envOr (env_LIMIT_MAX_CONCURRENT env) 20,
      setting_highWater = envOr (env_LIMIT_QUEUE_SIZE env) 100\<rparr>"

text \<open>The two bounds of the scheduler, as numbers.\<close>

record limiter_options =
  maxConcurrent :: nat
  highWater :: nat

text \<open>
  Modelled from the spec: the limiter is the Bottleneck library, which is not under
  \<open>src/\<close>. The spec's scheduler: at most \<open>maxConcurrent\<close> tasks execute, further tasks
  wait in a FIFO queue of at most \<open>highWater\<close> entries, and once the queue is full a new
  submission is rejected at once. A submission is one step of the machine and answers at
  once with one of three admissions.
\<close>

datatype admission = Started | Queued | Dropped

definition submit :: "limiter_options \<Rightarrow> nat \<Rightarrow> limiter_state \<Rightarrow> admission \<times> limiter_state" where
  "submit opts job st =
     (if length (executing st) < maxConcurrent opts
      then (Started, st\<lparr>executing := executing st @ [job]\<rparr>)
      else if length (waiting st) < highWater opts
      then (Queued, st\<lparr>waiting := waiting st @ [job]\<rparr>)
      else (Dropped, st))"





text \<open>
  Modelled from the spec: \<open>limiter.schedule(task)\<close> of the Bottleneck library, inside
  one request. The request is rejected when the scheduler is full, and else its task
  runs (at once or after its wait in the queue). The jobs of the other requests are what
  the state holds.
\<close>

definition schedule ::
  "limiter_options \<Rightarrow> ('v addon_state, 'a) io \<Rightarrow> ('v addon_state, 'a) io" where
  "schedule opts task s =
     (case fst (submit opts (length (addon_log s)) (limiter_jobs s)) of
        Dropped \<Rightarrow> (Rejected (ErrorObject None None), s\<lparr>addon_log := addon_log s @ [JobDropped]\<rparr>)
      | Started \<Rightarrow> task (s\<lparr>addon_log := addon_log s @ [JobScheduled]\<rparr>)
      | Queued \<Rightarrow> task (s\<lparr>addon_log := addon_log s @ [JobScheduled]\<rparr>))"

text \<open>The number that a text of decimal digits stands for.\<close>

definition textNumber :: "string \<Rightarrow> nat option" where
  "textNumber t =
     (if t \<noteq> [] \<and> list_all isDigit t
      then Some (foldl (\<lambda>n c. 10 * n + length (takeWhile (\<lambda>d. d \<noteq> c) ''0123456789'')) 0 t)
      else None)"

text \<open>
  Modelled from the spec: \<open>limiter.schedule(task)\<close> of the Bottleneck library with the
  options as the add-on hands them over. The spec gives both bounds as numbers. A bound
  that comes from the environment reaches the library as a text: a text is never
  identical to the length of the queue, so with a text for \<open>highWater\<close> no submission
  is dropped; where the library counts the free slots, a text of digits stands for its
  number and any other text leaves no slot free.
\<close>

definition scheduleBy ::
  "limiter_settings \<Rightarrow> ('v addon_state, 'a) io \<Rightarrow> ('v addon_state, 'a) io" where
  "scheduleBy settings task =
     (case setting_highWater settings of
        Text t \<Rightarrow> (\<lambda>s. task (s\<lparr>addon_log := addon_log s @ [JobScheduled]\<rparr>))
      | Number m \<Rightarrow>
          (case setting_maxConcurrent settings of
             Number n \<Rightarrow> schedule \<lparr>maxConcurrent = n, highWater = m\<rparr> task
           | Text t \<Rightarrow>
               schedule
                 \<lparr>maxConcurrent = (case textNumber t of Some n \<Rightarrow> n | None \<Rightarrow> 0),
                  highWater = m\<rparr> task))"

section \<open>The stream handler of the add-on\<close>

text \<open>
  \<open>id.match(/tt\d+/i)\<close> and \<open>id.match(/kitsu:\d+/i)\<close>: the pattern is searched anywhere
  in the id; it is a literal, compared without case, followed by at least one digit.
\<close>

fun startsWithIgnoreCase :: "string \<Rightarrow> string \<Rightarrow> bool" where
  "startsWithIgnoreCase s [] = True"
| "startsWithIgnoreCase [] (p # ps) = False"
| "startsWithIgnoreCase (c # cs) (p # ps) =
     (toLowerChar c = toLowerChar p \<and> startsWithIgnoreCase cs ps)"

definition literalThenDigit :: "string \<Rightarrow> string \<Rightarrow> bool" where
  "literalThenDigit literal s =
     (startsWithIgnoreCase s literal \<and>
      (case drop (length literal) s of [] \<Rightarrow> False | c # cs \<Rightarrow> isDigit c))"

fun searchPattern :: "(string \<Rightarrow> bool) \<Rightarrow> string \<Rightarrow> bool" where
  "searchPattern p [] = p []"
| "searchPattern p (c # cs) = (p (c # cs) \<or> searchPattern p cs)"

definition matchImdb :: "string \<Rightarrow> bool" where
  "matchImdb ident = searchPattern (literalThenDigit ''tt'') ident"

definition matchKitsu :: "string \<Rightarrow> bool" where
  "matchKitsu ident = searchPattern (literalThenDigit ''kitsu:'') ident"

record stream_args =
  arg_type :: string
  arg_id :: string

record 'v stream_response =
  streams :: "'v list"
  cacheMaxAge :: "nat option"
  staleRevalidate :: "nat option"
  staleError :: "nat option"

text \<open>
  What the add-on imports: the type names of \<open>lib/types\<close>, the record handlers with
  their repository lookups, the fields of a record that the sort reads, \<open>toStreamInfo\<close>,
  the steps after the cache (filters, sorting, static info, debrid tagging) as one
  function, and the text of an error in a template literal.
\<close>

record ('r, 'v) addon_library =
  type_MOVIE :: string
  type_SERIES :: string
  movieRecordsHandler :: "stream_args \<Rightarrow> ('v addon_state, 'r list) io"
  seriesRecordsHandler :: "stream_args \<Rightarrow> ('v addon_state, 'r list) io"
  record_seeders :: "'r \<Rightarrow> int"
  record_uploadDate :: "'r \<Rightarrow> int"
  toStreamInfo :: "'r \<Rightarrow> 'v"
  afterCache :: "stream_args \<Rightarrow> 'v list \<Rightarrow> ('v addon_state, 'v list) io"
  errorText :: "js_error \<Rightarrow> string"

record addon_env =
  env_CACHE_MAX_AGE :: "nat option"
  env_cache :: cache_env
  env_limiter :: limiter_env

definition STALE_REVALIDATE_AGE :: nat where
  "STALE_REVALIDATE_AGE = 4 * 60 * 60"

definition STALE_ERROR_AGE :: nat where
  "STALE_ERROR_AGE = 7 * 24 * 60 * 60"

text \<open>\<open>parseInt(process.env.CACHE_MAX_AGE) || 4 * 60 * 60\<close> in the earlier variant.\<close>

definition CACHE_MAX_AGE_v1 :: "addon_env \<Rightarrow> nat" where
  "CACHE_MAX_AGE_v1 env =
     (case env_CACHE_MAX_AGE env of
        Some n \<Rightarrow> if n = 0 then 4 * 60 * 60 else n
      | None \<Rightarrow> 4 * 60 * 60)"

definition CACHE_MAX_AGE_EMPTY_v1 :: nat where
  "CACHE_MAX_AGE_EMPTY_v1 = 60"

definition CACHE_MAX_AGE :: "addon_env \<Rightarrow> nat" where
  "CACHE_MAX_AGE env = (case env_CACHE_MAX_AGE env of Some n \<Rightarrow> n | None \<Rightarrow> 4 * 60 * 60)"

definition CACHE_MAX_AGE_EMPTY :: nat where
  "CACHE_MAX_AGE_EMPTY = 30 * 60"

definition streamHandler ::
  "('r, 'v) addon_library \<Rightarrow> stream_args \<Rightarrow> ('v addon_state, 'r list) io" where
  "streamHandler lib args =
     (if arg_type args = type_MOVIE lib then movieRecordsHandler lib args
      else if arg_type args = type_SERIES lib then seriesRecordsHandler lib args
      else reject_io (Message ''not supported type''))"

text \<open>
  \<open>records.sort((a, b) => b.torrent.seeders - a.torrent.seeders || b.torrent.uploadDate -
  a.torrent.uploadDate)\<close>: the stable sort of the runtime with this comparator.
\<close>

fun insertWith :: "('a \<Rightarrow> 'a \<Rightarrow> int) \<Rightarrow> 'a \<Rightarrow> 'a list \<Rightarrow> 'a list" where
  "insertWith cmp x [] = [x]"
| "insertWith cmp x (y # ys) = (if cmp x y \<le> 0 then x # y # ys else y # insertWith cmp x ys)"

definition sortWith :: "('a \<Rightarrow> 'a \<Rightarrow> int) \<Rightarrow> 'a list \<Rightarrow> 'a list" where
  "sortWith cmp xs = foldr (insertWith cmp) xs []"

definition compareRecords :: "('r, 'v) addon_library \<Rightarrow> 'r \<Rightarrow> 'r \<Rightarrow> int" where
  "compareRecords lib a b =
     (if record_seeders lib b - record_seeders lib a \<noteq> 0
      then record_seeders lib b - record_seeders lib a
      else record_uploadDate lib b - record_uploadDate lib a)"

text \<open>The function that the add-on hands to the response cache.\<close>

definition computeStreams ::
  "limiter_settings \<Rightarrow> ('r, 'v) addon_library \<Rightarrow> stream_args \<Rightarrow> ('v addon_state, 'v list) io" where
  "computeStreams settings lib args =
     scheduleBy settings
       (bind_io (streamHandler lib args)
          (\<lambda>records. resolve_io (map (toStreamInfo lib) (sortWith (compareRecords lib) records))))"

text \<open>
  \<open>builder.defineStreamHandler\<close> of the earlier variant (queue of 50, a failure is
  rejected as a text) and of the later variant (queue of 100, a failure is logged and
  rejected as it is).
\<close>

definition defineStreamHandler_v1 ::
  "addon_env \<Rightarrow> ('r, 'v) addon_library \<Rightarrow> stream_args
     \<Rightarrow> ('v addon_state, 'v stream_response) io" where
  "defineStreamHandler_v1 env lib args =
     (if \<not> matchImdb (arg_id args) \<and> \<not> matchKitsu (arg_id args)
      then resolve_io
             \<lparr>streams = [], cacheMaxAge = None, staleRevalidate = None, staleError = None\<rparr>
      else
        catch_io
          (bind_io
             (bind_io
                (cacheWrapStream (env_cache env) (arg_id args)
                   (computeStreams (limiter_v1 (env_limiter env)) lib args))
                (afterCache lib args))
             (\<lambda>streams.
                resolve_io
                  \<lparr>streams = streams,
                   cacheMaxAge = Some (if streams \<noteq> [] then CACHE_MAX_AGE_v1 env
                                       else CACHE_MAX_AGE_EMPTY_v1),
                   staleRevalidate = Some STALE_REVALIDATE_AGE,
                   staleError = Some STALE_ERROR_AGE\<rparr>))
          (\<lambda>error.
             reject_io (Message (''Failed request '' @ arg_id args @ '': '' @ errorText lib error))))"

definition defineStreamHandler ::
  "addon_env \<Rightarrow> ('r, 'v) addon_library \<Rightarrow> stream_args
     \<Rightarrow> ('v addon_state, 'v stream_response) io" where
  "defineStreamHandler env lib args =
     (if \<not> matchImdb (arg_id args) \<and> \<not> matchKitsu (arg_id args)
      then resolve_io
             \<lparr>streams = [], cacheMaxAge = None, staleRevalidate = None, staleError = None\<rparr>
      else
        catch_io
          (bind_io
             (bind_io
                (cacheWrapStream (env_cache env) (arg_id args)
                   (computeStreams (limiter (env_limiter env)) lib args))
                (afterCache lib args))
             (\<lambda>streams.
                resolve_io
                  \<lparr>streams = streams,
                   cacheMaxAge = Some (if streams \<noteq> [] then CACHE_MAX_AGE env
                                       else CACHE_MAX_AGE_EMPTY),
                   staleRevalidate = Some STALE_REVALIDATE_AGE,
                   staleError = Some STALE_ERROR_AGE\<rparr>))
          (\<lambda>error. reject_io error))"

section \<open>Concrete provider accounts\<close>

text \<open>
  Small accounts and inputs on which the model is run: a library that takes \<open>.mkv\<close> for
  video and \<open>.rar\<close> for an archive, an account that holds one job waiting for the file
  selection, and an account whose first job is in error and whose second job starts
  downloading once its files are selected.
\<close>

definition demo_library :: library where
  "demo_library =
     \<lparr>lib_isVideo = (\<lambda>path. includesStr path ''.mkv''),
      lib_isArchive = (\<lambda>link. includesStr link ''.rar''),
      lib_getMagnetLink = (\<lambda>infoHash. Inr (''magnet:?xt=urn:btih:'' @ infoHash)),
      lib_stringifyError = (\<lambda>e. ''{}''),
      lib_stringifyTorrent = (\<lambda>t. ''{}'')\<rparr>"

definition demo_files :: "rd_file list" where
  "demo_files =
     [\<lparr>file_id = 1, file_path = ''/a.mkv'', file_bytes = 10485760, file_selected = False\<rparr>,
      \<lparr>file_id = 2, file_path = ''/b.mkv'', file_bytes = 10485760, file_selected = False\<rparr>,
      \<lparr>file_id = 3, file_path = ''/c.txt'', file_bytes = 100, file_selected = False\<rparr>,
      \<lparr>file_id = 4, file_path = ''/d.mkv'', file_bytes = 1048576, file_selected = False\<rparr>]"

definition demo_job :: "string \<Rightarrow> status \<Rightarrow> torrent" where
  "demo_job torrentId s =
     \<lparr>torrent_id = torrentId, torrent_status = Some s, torrent_files = Some demo_files,
      torrent_links = [], torrent_hash = ''ABC''\<rparr>"

definition waiting_client :: rd_client where
  "waiting_client =
     \<lparr>torrents_get = (\<lambda>h. Inr (Some [demo_job ''T1'' ''waiting_files_selection''])),
      torrents_info = (\<lambda>h torrentId. Inr (Some (demo_job ''T1'' ''waiting_files_selection''))),
      torrents_addMagnet = (\<lambda>h magnetLink. Inl Nullish),
      torrents_selectFiles = (\<lambda>h torrentId ids. Inr ()),
      unrestrict_link = (\<lambda>h link. Inl Nullish),
      torrents_instantAvailability = (\<lambda>h batch. Inl Nullish),
      first_rejected = (\<lambda>h es. 0)\<rparr>"





definition empty_world :: world where
  "empty_world = \<lparr>calls = [], availability_cache = Map.empty\<rparr>"

text \<open>
  Accounts for the availability check: one whose availability call is always rejected
  with an empty error (the empty body), one that rejects it with the bad-token code, and
  one that answers with text that is not JSON.
\<close>

definition availability_client :: "(js_error + availability_response) \<Rightarrow> rd_client" where
  "availability_client answer =
     \<lparr>torrents_get = (\<lambda>h. Inl Nullish),
      torrents_info = (\<lambda>h torrentId. Inl Nullish),
      torrents_addMagnet = (\<lambda>h magnetLink. Inl Nullish),
      torrents_selectFiles = (\<lambda>h torrentId ids. Inl Nullish),
      unrestrict_link = (\<lambda>h link. Inl Nullish),
      torrents_instantAvailability = (\<lambda>h batch. answer),
      first_rejected = (\<lambda>h es. 0)\<rparr>"

definition empty_body_client :: rd_client where
  "empty_body_client = availability_client (Inl Nullish)"

definition bad_token_client :: rd_client where
  "bad_token_client = availability_client (Inl (ErrorObject (Some 8) (Some ''Bad token'')))"

definition malformed_client :: rd_client where
  "malformed_client = availability_client (Inr (NonObject ''<html>busy</html>''))"

text \<open>
  An account that rejects the batch of the one hash \<open>h3\<close> with the bad-token code and
  every other batch with an empty error, the empty errors arriving first.
\<close>

definition mixed_client :: rd_client where
  "mixed_client =
     \<lparr>torrents_get = (\<lambda>h. Inl Nullish),
      torrents_info = (\<lambda>h torrentId. Inl Nullish),
      torrents_addMagnet = (\<lambda>h magnetLink. Inl Nullish),
      torrents_selectFiles = (\<lambda>h torrentId ids. Inl Nullish),
      unrestrict_link = (\<lambda>h link. Inl Nullish),
      torrents_instantAvailability = (\<lambda>h batch.
        if batch = [''h3''] then Inl (ErrorObject (Some 8) (Some ''Bad token''))
        else Inl Nullish),
      first_rejected = (\<lambda>h es. 0)\<rparr>"

definition cached_world :: world where
  "cached_world =
     \<lparr>calls = [],
      availability_cache = [''h1'' \<mapsto> [[''1'', ''2'']], ''h2'' \<mapsto> []]\<rparr>"

text \<open>
  An add-on with the default environment, a library with two records per lookup, and a
  state with an empty cache and an idle scheduler.
\<close>

definition demo_addon_env :: addon_env where
  "demo_addon_env =
     \<lparr>env_CACHE_MAX_AGE = None,
      env_cache = \<lparr>env_NO_CACHE = False, env_MONGODB_URI = None, env_STREAM_TTL = None,
                   env_STREAM_EMPTY_TTL = None\<rparr>,
      env_limiter = \<lparr>env_LIMIT_MAX_CONCURRENT = None, env_LIMIT_QUEUE_SIZE = None\<rparr>\<rparr>"

definition demo_addon_library :: "(int \<times> int, string) addon_library" where
  "demo_addon_library =
     \<lparr>type_MOVIE = ''movie'',
      type_SERIES = ''series'',
      movieRecordsHandler = (\<lambda>args. resolve_io [(5, 100), (9, 50)]),
      seriesRecordsHandler = (\<lambda>args. resolve_io []),
      record_seeders = fst,
      record_uploadDate = snd,
      toStreamInfo = (\<lambda>r. showInt (fst r)),
      afterCache = (\<lambda>args streams. resolve_io streams),
      errorText = (\<lambda>e. ''error'')\<rparr>"

definition demo_addon_state :: "string addon_state" where
  "demo_addon_state =
     \<lparr>remote_store = Map.empty, clock = 1000,
      limiter_jobs = \<lparr>executing = [], waiting = []\<rparr>, addon_log = []\<rparr>"

section \<open>Theorems\<close>

subsection \<open>Status classification of the two variants\<close>

text \<open>
  C9 (as stated, refuted). The claim says that both variants agree on \<open>statusReady\<close> and
  \<open>statusError\<close> for every status string and that both count \<open>dead\<close> as Ready. On the
  status \<open>dead\<close> the earlier variant answers Erred and not Ready, the later variant
  answers Ready and not Erred.
\<close>

theorem status_variants_disagree_on_dead:
  "statusReady ''dead'' \<noteq> statusReady_v1 ''dead'' \<and>
   statusError ''dead'' \<noteq> statusError_v1 ''dead'' \<and>
   \<not> statusReady_v1 ''dead''"
  by (simp add: statusReady_def statusReady_v1_def statusError_def statusError_v1_def)

text \<open>
  C9 (amended). For every status string other than \<open>dead\<close> the two variants agree on
  \<open>statusReady\<close> and on \<open>statusError\<close>; on \<open>dead\<close> only the later variant counts the
  job as Ready, while the earlier variant counts it as Erred.
\<close>

theorem status_variants_agree_except_dead:
  "(s \<noteq> ''dead'' \<longrightarrow>
      statusReady s = statusReady_v1 s \<and> statusError s = statusError_v1 s) \<and>
   (statusReady ''dead'' \<and> \<not> statusError ''dead'') \<and>
   (\<not> statusReady_v1 ''dead'' \<and> statusError_v1 ''dead'')"
  by (simp add: statusReady_def statusReady_v1_def statusError_def statusError_v1_def)

theorem status_variants_agree_except_dead_witness:
  "''downloaded'' \<noteq> ''dead'' \<and>
   statusReady ''downloaded'' = statusReady_v1 ''downloaded'' \<and>
   statusError ''downloaded'' = statusError_v1 ''downloaded'' \<and>
   statusReady ''downloaded''"
  using status_variants_agree_except_dead [of "''downloaded''"]
  by (simp add: statusReady_def)

subsection \<open>The invariant of the cached file-id groups\<close>

lemma sortByLengthDesc_sorted:
  "sorted_wrt (\<lambda>a b. length b \<le> length a) (sortByLengthDesc gs)"
proof -
  have "sorted (map (\<lambda>g. - int (length g)) (sortByLengthDesc gs))"
    unfolding sortByLengthDesc_def by (rule sorted_sort_key)
  then show ?thesis
    by (simp add: sorted_map sorted_wrt_iff_nth_less)
qed

lemma dropDominated_sorted:
  "sorted_wrt (\<lambda>a b. length b \<le> length a) gs \<Longrightarrow>
   sorted_wrt (\<lambda>a b. length b \<le> length a) (dropDominated gs)"
  by (cases gs) (auto intro: sorted_wrt_filter)

lemma dropDominated_later:
  assumes "0 < i" and "i < length (dropDominated gs)"
  shows "\<exists>x \<in> set (dropDominated gs ! i). x \<notin> set (dropDominated gs ! 0)"
proof (cases gs)
  case Nil
  with assms show ?thesis by simp
next
  case (Cons g0 rest)
  let ?kept = "filter (\<lambda>cached. list_ex (\<lambda>i. i \<notin> set g0) cached) rest"
  from assms Cons obtain j where j: "i = Suc j" "j < length ?kept"
    by (cases i) auto
  then have "?kept ! j \<in> set ?kept"
    by (simp only: nth_mem)
  then have "list_ex (\<lambda>i. i \<notin> set g0) (?kept ! j)"
    by simp
  then have "\<exists>x \<in> set (?kept ! j). x \<notin> set g0"
    by (simp only: list_ex_iff)
  moreover have "dropDominated gs ! i = ?kept ! j" "dropDominated gs ! 0 = g0"
    using Cons j by simp_all
  ultimately show ?thesis by simp
qed

lemma getCachedIds_sorted:
  "sorted_wrt (\<lambda>a b. length b \<le> length a) (getCachedIds isVideo hr)"
  by (cases hr) (simp_all add: dropDominated_sorted sortByLengthDesc_sorted)

lemma getCachedIds_later:
  "0 < i \<Longrightarrow> i < length (getCachedIds isVideo hr) \<Longrightarrow>
   \<exists>x \<in> set (getCachedIds isVideo hr ! i). x \<notin> set (getCachedIds isVideo hr ! 0)"
  by (cases hr) (simp_all add: dropDominated_later)

lemma sorted_desc_first_largest:
  "sorted_wrt (\<lambda>a b. length b \<le> length a) gs \<Longrightarrow> g \<in> set gs \<Longrightarrow>
   length g \<le> length (gs ! 0)"
  by (cases gs) auto

lemma strict_subset_shorter:
  assumes "distinct (map fst c1)" "distinct (map fst c2)"
    and "set (map fst c2) \<subset> set (map fst c1)"
  shows "length c2 < length c1"
proof -
  have "card (set (map fst c2)) < card (set (map fst c1))"
    using assms(3) by (intro psubset_card_mono) simp_all
  then show ?thesis
    using assms(1,2) by (simp add: distinct_card del: set_map)
qed

lemma two_copies_collapse:
  assumes vid: "c1 \<noteq> []" "list_all (\<lambda>file. isVideo (filename file)) (map snd c1)"
    and d: "distinct (map fst c1)" "distinct (map fst c2)"
    and sub: "set (map fst c2) \<subset> set (map fst c1)"
    and cs: "concat (map snd hosters) = [c1, c2] \<or> concat (map snd hosters) = [c2, c1]"
  shows "getCachedIds isVideo (HosterObject hosters) = [map fst c1]"
proof -
  have len: "length c2 < length c1"
    using d sub by (rule strict_subset_shorter)
  have dom: "\<not> list_ex (\<lambda>i. i \<notin> set (map fst c1)) (map fst c2)"
    using sub by (auto simp: list_ex_iff)
  from cs show ?thesis
    using vid len dom by (auto simp: sortByLengthDesc_def)
qed

lemma dropDominated_subset: "set (dropDominated gs) \<subseteq> set gs"
  by (cases gs) auto

lemma getCachedIds_distinct:
  assumes "\<forall>c \<in> set (concat (map snd hosters)). distinct (map fst c)"
    and "g \<in> set (getCachedIds isVideo (HosterObject hosters))"
  shows "distinct g"
proof -
  from assms(2) dropDominated_subset
  have "g \<in> set (sortByLengthDesc
         (map (\<lambda>cached. map fst cached)
           (filter (\<lambda>cached. cached \<noteq> [] \<and> list_all (\<lambda>file. isVideo (filename file)) (map snd cached))
             (concat (map snd hosters)))))"
    by auto
  then obtain c where "c \<in> set (concat (map snd hosters))" "g = map fst c"
    by (auto simp: sortByLengthDesc_def)
  with assms(1) show ?thesis by blast
qed

text \<open>
  C2. For every hoster result, the groups that \<open>getCachedIds\<close> computes are ordered by
  descending cardinality, group 0 is the largest, and every group after the first holds
  a file id that group 0 does not hold. The length of a group is its cardinality, since
  the keys of a copy are distinct. In particular, when the hoster result consists of one
  non-empty all-video copy and one copy whose file ids are a strict subset of the first
  copy's ids, in either order, the result is exactly the one group of the first copy's
  ids.
\<close>

theorem getCachedIds_groups_invariant:
  "sorted_wrt (\<lambda>a b. length b \<le> length a) (getCachedIds isVideo hr) \<and>
   (\<forall>g \<in> set (getCachedIds isVideo hr). length g \<le> length (getCachedIds isVideo hr ! 0)) \<and>
   (\<forall>i. 0 < i \<and> i < length (getCachedIds isVideo hr) \<longrightarrow>
      (\<exists>x \<in> set (getCachedIds isVideo hr ! i). x \<notin> set (getCachedIds isVideo hr ! 0))) \<and>
   (c1 \<noteq> [] \<and> list_all (\<lambda>file. isVideo (filename file)) (map snd c1) \<and>
    distinct (map fst c1) \<and> distinct (map fst c2) \<and>
    set (map fst c2) \<subset> set (map fst c1) \<and>
    (concat (map snd hosters) = [c1, c2] \<or> concat (map snd hosters) = [c2, c1])
    \<longrightarrow> getCachedIds isVideo (HosterObject hosters) = [map fst c1]) \<and>
   ((\<forall>c \<in> set (concat (map snd hosters)). distinct (map fst c)) \<longrightarrow>
    (\<forall>g \<in> set (getCachedIds isVideo (HosterObject hosters)). length g = card (set g)))"
proof (intro conjI allI ballI impI)
  show "sorted_wrt (\<lambda>a b. length b \<le> length a) (getCachedIds isVideo hr)"
    by (rule getCachedIds_sorted)
next
  fix g assume "g \<in> set (getCachedIds isVideo hr)"
  then show "length g \<le> length (getCachedIds isVideo hr ! 0)"
    using getCachedIds_sorted by (rule sorted_desc_first_largest [rotated])
next
  fix i assume "0 < i \<and> i < length (getCachedIds isVideo hr)"
  then show "\<exists>x \<in> set (getCachedIds isVideo hr ! i). x \<notin> set (getCachedIds isVideo hr ! 0)"
    by (simp add: getCachedIds_later)
next
  assume "c1 \<noteq> [] \<and> list_all (\<lambda>file. isVideo (filename file)) (map snd c1) \<and>
    distinct (map fst c1) \<and> distinct (map fst c2) \<and>
    set (map fst c2) \<subset> set (map fst c1) \<and>
    (concat (map snd hosters) = [c1, c2] \<or> concat (map snd hosters) = [c2, c1])"
  then show "getCachedIds isVideo (HosterObject hosters) = [map fst c1]"
    by (intro two_copies_collapse [of c1 isVideo c2 hosters]) simp_all
next
  fix g
  assume "\<forall>c \<in> set (concat (map snd hosters)). distinct (map fst c)"
    and "g \<in> set (getCachedIds isVideo (HosterObject hosters))"
  then have "distinct g"
    by (rule getCachedIds_distinct)
  then show "length g = card (set g)"
    by (simp add: distinct_card)
qed

theorem getCachedIds_groups_invariant_witness:
  "getCachedIds (\<lambda>f. f = ''a.mkv'')
     (HosterObject [(''rd'',
        [[(''3'', \<lparr>filename = ''a.mkv'', filesize = 7\<rparr>)],
         [(''1'', \<lparr>filename = ''a.mkv'', filesize = 7\<rparr>),
          (''2'', \<lparr>filename = ''a.mkv'', filesize = 7\<rparr>)]])])
     = [[''1'', ''2''], [''3'']] \<and>
   (\<exists>x \<in> set [''3'']. x \<notin> set [''1'', ''2'']) \<and>
   set (map fst [(''2'', \<lparr>filename = ''a.mkv'', filesize = 7\<rparr>)])
     \<subset> set (map fst [(''1'', \<lparr>filename = ''a.mkv'', filesize = 7\<rparr>),
                       (''2'', \<lparr>filename = ''a.mkv'', filesize = 7\<rparr>)]) \<and>
   getCachedIds (\<lambda>f. f = ''a.mkv'')
     (HosterObject [(''rd'',
        [[(''2'', \<lparr>filename = ''a.mkv'', filesize = 7\<rparr>)],
         [(''1'', \<lparr>filename = ''a.mkv'', filesize = 7\<rparr>),
          (''2'', \<lparr>filename = ''a.mkv'', filesize = 7\<rparr>)]])])
     = [[''1'', ''2'']]"
  using getCachedIds_groups_invariant
    [of "\<lambda>f. f = ''a.mkv''"
        "HosterObject [(''rd'',
           [[(''3'', \<lparr>filename = ''a.mkv'', filesize = 7\<rparr>)],
            [(''1'', \<lparr>filename = ''a.mkv'', filesize = 7\<rparr>),
             (''2'', \<lparr>filename = ''a.mkv'', filesize = 7\<rparr>)]])]"
        "[(''1'', \<lparr>filename = ''a.mkv'', filesize = 7\<rparr>),
          (''2'', \<lparr>filename = ''a.mkv'', filesize = 7\<rparr>)]"
        "[(''2'', \<lparr>filename = ''a.mkv'', filesize = 7\<rparr>)]"
        "[(''rd'',
           [[(''2'', \<lparr>filename = ''a.mkv'', filesize = 7\<rparr>)],
            [(''1'', \<lparr>filename = ''a.mkv'', filesize = 7\<rparr>),
             (''2'', \<lparr>filename = ''a.mkv'', filesize = 7\<rparr>)]])]"]
  by (auto simp: sortByLengthDesc_def)

subsection \<open>The resolver: a job that waits for the file selection\<close>

lemmas status_defs = statusOf_def statusReady_def statusDownloading_def statusMagnetError_def
  statusError_def statusWaitingSelection_def statusOpening_def

lemmas io_defs = bind_io_def catch_io_def resolve_io_def reject_io_def rd_call_def

lemmas demo_defs = demo_library_def demo_files_def demo_job_def empty_world_def
  toLowerCase_def toLowerChar_def showInt_def digitChar_def MIN_SIZE_def videoFileIds_def

text \<open>
  C1 (as stated, refuted). The account holds one job that waits for the file selection,
  with the files 1 and 2 (videos of 10 MB), 3 (a text file) and 4 (a video of 1 MB).
  \<open>resolve\<close> with \<open>fileIndex = 3\<close> does not select the wire id \<open>4\<close>: it selects \<open>1,2\<close>,
  the video files over 5 MB, and answers Downloading.
\<close>

theorem resolve_waiting_ignores_fileIndex:
  "resolve 1 demo_library waiting_client ''abc'' None (Some 3) empty_world =
     (Resolved (Static DOWNLOADING),
      \<lparr>calls = [TorrentsGet, TorrentsInfo ''T1'', SelectFiles ''T1'' ''1,2''],
       availability_cache = Map.empty\<rparr>)"
  by (simp add: resolve_def resolve'_def createOrFindTorrentId'_def findTorrent'_def
      findBestFitTorrent'_def getTorrentInfo'_def selectTorrentFiles'_def io_defs status_defs
      waiting_client_def demo_defs Let_def)

text \<open>
  C1 (amended). When \<open>resolve\<close> reaches a job in the WaitingSelection state, it calls the
  selection step without \<open>fileIndex\<close>: the step selects every recognized video file
  over 5 MB, whether or not \<open>fileIndex\<close> is given. When that provider call succeeds the
  call returns Downloading, and when it fails the call returns OpeningFailed. The
  selection step itself, handed a \<open>fileIndex\<close> (as the job recreation does), selects
  exactly the wire id \<open>fileIndex + 1\<close>.
\<close>

theorem resolve_waiting_selects_videos:
  assumes located:
      "createOrFindTorrentId' lib RD infoHash cachedEntryInfo fileIndex w = (Resolved tid, w1)"
    and tid: "tid \<noteq> []"
    and info: "torrents_info RD (calls w1) tid = Inr (Some t)"
    and waiting: "statusOf statusWaitingSelection t"
    and files: "torrent_files t = Some files"
  shows "resolve fuel lib RD infoHash cachedEntryInfo fileIndex w =
           (case torrents_selectFiles RD (calls w1 @ [TorrentsInfo tid]) (torrent_id t)
                   (videoFileIds lib files None) of
              Inr u \<Rightarrow>
                (Resolved (Static DOWNLOADING),
                 w1\<lparr>calls := calls w1 @ [TorrentsInfo tid,
                        SelectFiles (torrent_id t) (videoFileIds lib files None)]\<rparr>)
            | Inl e \<Rightarrow>
                (Resolved (Static FAILED_OPENING),
                 w1\<lparr>calls := calls w1 @ [TorrentsInfo tid,
                        SelectFiles (torrent_id t) (videoFileIds lib files None)]\<rparr>)) \<and>
         videoFileIds lib files None =
           joinComma (map (\<lambda>file. showInt (file_id file))
             (filter (\<lambda>file. lib_isVideo lib (file_path file) \<and> file_bytes file > MIN_SIZE) files)) \<and>
         selectTorrentFiles' lib RD t (Some i) w' =
           (case torrents_selectFiles RD (calls w') (torrent_id t) (showInt (i + 1)) of
              Inr u \<Rightarrow> (Resolved (), w'\<lparr>calls := calls w' @ [SelectFiles (torrent_id t) (showInt (i + 1))]\<rparr>)
            | Inl e \<Rightarrow> (Rejected e, w'\<lparr>calls := calls w' @ [SelectFiles (torrent_id t) (showInt (i + 1))]\<rparr>))"
proof (intro conjI)
  have s: "\<not> statusOf statusReady t" "\<not> statusOf statusDownloading t"
    "\<not> statusOf statusMagnetError t" "\<not> statusOf statusError t"
    using waiting by (auto simp: status_defs split: option.splits)
  show "resolve fuel lib RD infoHash cachedEntryInfo fileIndex w =
           (case torrents_selectFiles RD (calls w1 @ [TorrentsInfo tid]) (torrent_id t)
                   (videoFileIds lib files None) of
              Inr u \<Rightarrow>
                (Resolved (Static DOWNLOADING),
                 w1\<lparr>calls := calls w1 @ [TorrentsInfo tid,
                        SelectFiles (torrent_id t) (videoFileIds lib files None)]\<rparr>)
            | Inl e \<Rightarrow>
                (Resolved (Static FAILED_OPENING),
                 w1\<lparr>calls := calls w1 @ [TorrentsInfo tid,
                        SelectFiles (torrent_id t) (videoFileIds lib files None)]\<rparr>))"
    using located tid info waiting files s
    by (simp add: resolve_def resolve'_def getTorrentInfo'_def selectTorrentFiles'_def io_defs
        split: sum.splits)
next
  show "videoFileIds lib files None =
           joinComma (map (\<lambda>file. showInt (file_id file))
             (filter (\<lambda>file. lib_isVideo lib (file_path file) \<and> file_bytes file > MIN_SIZE) files))"
    by (simp add: videoFileIds_def)
next
  show "selectTorrentFiles' lib RD t (Some i) w' =
           (case torrents_selectFiles RD (calls w') (torrent_id t) (showInt (i + 1)) of
              Inr u \<Rightarrow> (Resolved (), w'\<lparr>calls := calls w' @ [SelectFiles (torrent_id t) (showInt (i + 1))]\<rparr>)
            | Inl e \<Rightarrow> (Rejected e, w'\<lparr>calls := calls w' @ [SelectFiles (torrent_id t) (showInt (i + 1))]\<rparr>))"
    using waiting files
    by (simp add: selectTorrentFiles'_def io_defs videoFileIds_def split: sum.splits)
qed

theorem resolve_waiting_selects_videos_witness:
  "createOrFindTorrentId' demo_library waiting_client ''abc'' None (Some 3) empty_world
     = (Resolved ''T1'', empty_world\<lparr>calls := [TorrentsGet]\<rparr>) \<and>
   statusOf statusWaitingSelection (demo_job ''T1'' ''waiting_files_selection'') \<and>
   resolve 0 demo_library waiting_client ''abc'' None (Some 3) empty_world =
     (Resolved (Static DOWNLOADING),
      empty_world\<lparr>calls := [TorrentsGet, TorrentsInfo ''T1'', SelectFiles ''T1'' ''1,2'']\<rparr>) \<and>
   selectTorrentFiles' demo_library waiting_client (demo_job ''T1'' ''waiting_files_selection'')
       (Some 3) empty_world =
     (Resolved (), empty_world\<lparr>calls := [SelectFiles ''T1'' ''4'']\<rparr>)"
proof -
  have located:
    "createOrFindTorrentId' demo_library waiting_client ''abc'' None (Some 3) empty_world
       = (Resolved ''T1'', empty_world\<lparr>calls := [TorrentsGet]\<rparr>)"
    by (simp add: createOrFindTorrentId'_def findTorrent'_def findBestFitTorrent'_def io_defs
        status_defs waiting_client_def demo_defs Let_def)
  have waiting: "statusOf statusWaitingSelection (demo_job ''T1'' ''waiting_files_selection'')"
    by (simp add: status_defs demo_defs)
  show ?thesis
    using resolve_waiting_selects_videos
      [OF located, of "demo_job ''T1'' ''waiting_files_selection''" demo_files 0 3 empty_world]
      located waiting
    by (simp add: waiting_client_def demo_defs)
qed

subsection \<open>The resolver: a job in error\<close>







subsection \<open>The batch availability client\<close>

text \<open>
  \<open>Promise.all\<close> starts every request and leaves the world as the requests left it; its
  rejection is one of the rejections of the requests, the one that settles first.
\<close>

lemma promise_all_state: "snd (promise_all first ms s) = snd (settle_all ms s)"
  by (simp add: promise_all_def split: prod.splits list.splits)

lemma promise_all_rejected:
  assumes "promise_all first ms s = (Rejected e, s')"
  shows "e \<in> set (rejections (fst (settle_all ms s)))"
proof -
  obtain rs s1 where st: "settle_all ms s = (rs, s1)"
    by (cases "settle_all ms s")
  from assms st obtain e0 es where
    r: "rejections rs = e0 # es" "e = (e0 # es) ! (first s1 (e0 # es) mod length (e0 # es))"
    by (auto simp: promise_all_def split: if_splits list.splits)
  have "first s1 (e0 # es) mod length (e0 # es) < length (e0 # es)"
    by (rule mod_less_divisor) simp
  then have "(e0 # es) ! (first s1 (e0 # es) mod length (e0 # es)) \<in> set (e0 # es)"
    by (rule nth_mem)
  with r st show ?thesis by simp
qed

lemma promise_all_fuel:
  assumes "\<forall>r \<in> set (fst (settle_all ms s)). r \<noteq> OutOfFuel"
  shows "fst (promise_all first ms s) \<noteq> OutOfFuel"
proof -
  obtain rs s1 where st: "settle_all ms s = (rs, s1)"
    by (cases "settle_all ms s")
  with assms have "\<not> list_ex (\<lambda>r. case r of OutOfFuel \<Rightarrow> True | _ \<Rightarrow> False) rs"
    by (auto simp: list_ex_iff split: outcome.splits)
  with st show ?thesis
    by (simp add: promise_all_def split: list.splits)
qed

lemma rejections_all_rejected:
  "\<forall>r \<in> set rs. \<exists>e. r = Rejected e \<and> P e \<Longrightarrow>
   length (rejections rs) = length rs \<and> (\<forall>e \<in> set (rejections rs). P e)"
  by (induction rs rule: rejections.induct) auto

lemma promise_all_all_rejected:
  assumes "\<forall>r \<in> set (fst (settle_all ms s)). \<exists>e. r = Rejected e \<and> P e"
    and "ms \<noteq> []"
  shows "\<exists>e. fst (promise_all first ms s) = Rejected e \<and> P e"
proof -
  obtain rs s1 where st: "settle_all ms s = (rs, s1)"
    by (cases "settle_all ms s")
  have len: "length rs = length ms"
    using st by (induction ms arbitrary: s rs s1) (auto split: prod.splits)
  from assms(1) st have all: "\<forall>r \<in> set rs. \<exists>e. r = Rejected e \<and> P e"
    by simp
  then have nf: "\<not> list_ex (\<lambda>r. case r of OutOfFuel \<Rightarrow> True | _ \<Rightarrow> False) rs"
    by (auto simp: list_ex_iff split: outcome.splits)
  from rejections_all_rejected [OF all]
  have rj: "length (rejections rs) = length rs" "\<forall>e \<in> set (rejections rs). P e"
    by simp_all
  with len assms(2) obtain e0 es where es: "rejections rs = e0 # es"
    by (cases "rejections rs") auto
  have "first s1 (e0 # es) mod length (e0 # es) < length (e0 # es)"
    by (rule mod_less_divisor) simp
  then have "(e0 # es) ! (first s1 (e0 # es) mod length (e0 # es)) \<in> set (e0 # es)"
    by (rule nth_mem)
  moreover from rj(2) es have "\<forall>x \<in> set (e0 # es). P x"
    by simp
  ultimately have "P ((e0 # es) ! (first s1 (e0 # es) mod length (e0 # es)))"
    by blast
  with st nf es show ?thesis
    by (simp add: promise_all_def)
qed

text \<open>The requests of one round: one call per batch, and nothing else is recorded.\<close>

lemma settle_batches:
  assumes "settle_all
     (map (\<lambda>batch. bind_io (rd_call (InstantAvailability batch) (answer batch)) (k batch)) batches) w
     = (rs, w')"
    and "\<forall>batch v w0. snd (k batch v w0) = w0 \<and> fst (k batch v w0) \<noteq> OutOfFuel"
  shows "w' = w\<lparr>calls := calls w @ map InstantAvailability batches\<rparr> \<and>
         (\<forall>r \<in> set rs. r \<noteq> OutOfFuel)"
  using assms
proof (induction batches arbitrary: w rs w')
  case Nil
  then show ?case by simp
next
  case (Cons b bs)
  obtain r1 w1 where h: "bind_io (rd_call (InstantAvailability b) (answer b)) (k b) w = (r1, w1)"
    by (cases "bind_io (rd_call (InstantAvailability b) (answer b)) (k b) w")
  have w1: "w1 = w\<lparr>calls := calls w @ [InstantAvailability b]\<rparr> \<and> r1 \<noteq> OutOfFuel"
  proof (cases "answer b (calls w)")
    case (Inl e)
    with h show ?thesis by (auto simp: io_defs)
  next
    case (Inr v)
    with h have "(r1, w1) = k b v (w\<lparr>calls := calls w @ [InstantAvailability b]\<rparr>)"
      by (simp add: io_defs)
    with Cons.prems(2) show ?thesis by (metis fst_conv snd_conv)
  qed
  obtain rs2 w2 where t: "settle_all
     (map (\<lambda>batch. bind_io (rd_call (InstantAvailability batch) (answer batch)) (k batch)) bs) w1
     = (rs2, w2)"
    by (cases "settle_all
     (map (\<lambda>batch. bind_io (rd_call (InstantAvailability batch) (answer batch)) (k batch)) bs) w1")
  from Cons.IH [OF t Cons.prems(2)]
  have ih: "w2 = w1\<lparr>calls := calls w1 @ map InstantAvailability bs\<rparr>" "\<forall>r \<in> set rs2. r \<noteq> OutOfFuel"
    by simp_all
  have "w' = w2" "rs = r1 # rs2"
    using Cons.prems(1) h t by auto
  with ih w1 show ?case by simp
qed

lemma settle_batches_rejected:
  assumes "settle_all
     (map (\<lambda>batch. bind_io (rd_call (InstantAvailability batch) (answer batch)) (k batch)) batches) w
     = (rs, w')"
    and "\<forall>batch \<in> set batches. \<forall>h. \<exists>e. answer batch h = Inl e \<and> P e"
  shows "\<forall>r \<in> set rs. \<exists>e. r = Rejected e \<and> P e"
  using assms
proof (induction batches arbitrary: w rs w')
  case Nil
  then show ?case by simp
next
  case (Cons b bs)
  from Cons.prems(2) have "\<exists>e. answer b (calls w) = Inl e \<and> P e"
    by simp
  then obtain e where e: "answer b (calls w) = Inl e" "P e"
    by blast
  then have h: "bind_io (rd_call (InstantAvailability b) (answer b)) (k b) w
      = (Rejected e, w\<lparr>calls := calls w @ [InstantAvailability b]\<rparr>)"
    by (simp add: io_defs)
  obtain rs2 w2 where t: "settle_all
     (map (\<lambda>batch. bind_io (rd_call (InstantAvailability batch) (answer batch)) (k batch)) bs)
     (w\<lparr>calls := calls w @ [InstantAvailability b]\<rparr>) = (rs2, w2)"
    by (cases "settle_all
     (map (\<lambda>batch. bind_io (rd_call (InstantAvailability batch) (answer batch)) (k batch)) bs)
     (w\<lparr>calls := calls w @ [InstantAvailability b]\<rparr>)")
  from Cons.prems(2) have "\<forall>batch \<in> set bs. \<forall>h. \<exists>e. answer batch h = Inl e \<and> P e"
    by simp
  from Cons.IH [OF t this] have "\<forall>r \<in> set rs2. \<exists>e. r = Rejected e \<and> P e" .
  moreover have "rs = Rejected e # rs2"
    using Cons.prems(1) h t by auto
  ultimately show ?case using e(2) by simp
qed

lemma bind_io_cases:
  "m w = (r1, w2) \<Longrightarrow>
   bind_io m f w =
     (case r1 of
        Resolved v \<Rightarrow> f v w2
      | Rejected e \<Rightarrow> (Rejected e, w2)
      | OutOfFuel \<Rightarrow> (OutOfFuel, w2))"
  by (simp add: bind_io_def)

lemma availabilityRequest_state:
  assumes "availabilityRequest lib RD cachedResults hashBatches w = (r, w')"
  shows "calls w' = calls w @ map InstantAvailability hashBatches \<and> r \<noteq> OutOfFuel \<and>
         (\<forall>e. r = Rejected e \<longrightarrow> w' = w\<lparr>calls := calls w @ map InstantAvailability hashBatches\<rparr>)"
proof -
  let ?k = "\<lambda>batch response.
                       case response of
                         NonObject text \<Rightarrow>
                           reject_io (ErrorObject None
                             (Some (''RD returned non JSON response: '' @ text)))
                       | NullResponse \<Rightarrow>
                           reject_io (TypeError ''Cannot convert undefined or null to object'')
                       | ResponseObject entries \<Rightarrow>
                           resolve_io (processAvailabilityResults (lib_isVideo lib) entries)"
  let ?ms = "map (\<lambda>batch.
                  bind_io
                    (rd_call (InstantAvailability batch)
                       (\<lambda>h. torrents_instantAvailability RD h batch))
                    (?k batch))
             hashBatches"
  let ?first = "\<lambda>w. first_rejected RD (calls w)"
  obtain rs w1 where st: "settle_all ?ms w = (rs, w1)"
    by (cases "settle_all ?ms w")
  have k: "\<forall>batch v (w0::world). snd (?k batch v w0) = w0 \<and> fst (?k batch v w0) \<noteq> OutOfFuel"
    by (auto simp: io_defs split: availability_response.splits)
  from settle_batches [OF st k]
  have w1: "w1 = w\<lparr>calls := calls w @ map InstantAvailability hashBatches\<rparr>"
    and nf: "\<forall>r \<in> set rs. r \<noteq> OutOfFuel"
    by simp_all
  obtain r1 w2 where p: "promise_all ?first ?ms w = (r1, w2)"
    by (cases "promise_all ?first ?ms w")
  have w2: "w2 = w1"
    using promise_all_state [of ?first ?ms w] p st by simp
  have r1: "r1 \<noteq> OutOfFuel"
    using promise_all_fuel [of ?ms w ?first] nf st p by simp
  have req: "availabilityRequest lib RD cachedResults hashBatches w =
      (case r1 of
         Resolved v \<Rightarrow>
           bind_io (cacheAvailabilityResults (foldl (++) Map.empty v))
             (\<lambda>results. resolve_io (Some (cachedResults ++ results))) w2
       | Rejected e \<Rightarrow> (Rejected e, w2)
       | OutOfFuel \<Rightarrow> (OutOfFuel, w2))"
    unfolding availabilityRequest_def
    by (rule bind_io_cases [where m = "promise_all ?first ?ms" and w = w, OF p])
  show ?thesis
  proof (cases r1)
    case (Resolved v)
    with assms req w1 w2 show ?thesis
      by (auto simp: bind_io_def cacheAvailabilityResults_def resolve_io_def)
  next
    case (Rejected e)
    with assms req w1 w2 show ?thesis by auto
  next
    case OutOfFuel
    with r1 show ?thesis by simp
  qed
qed

lemma availabilityRequest_calls:
  assumes "availabilityRequest lib RD cachedResults hashBatches w = (r, w')"
  shows "calls w' = calls w @ map InstantAvailability hashBatches"
  using availabilityRequest_state [OF assms] by simp

lemma availabilityRequest_fuel:
  "fst (availabilityRequest lib RD cachedResults hashBatches w) \<noteq> OutOfFuel"
  using availabilityRequest_state [of lib RD cachedResults hashBatches w]
  by (cases "availabilityRequest lib RD cachedResults hashBatches w") simp

lemma error_code_truthy: "error_code e = Some c \<Longrightarrow> truthy e"
  by (cases e) simp_all

lemma single_batch_rejected:
  assumes "torrents_instantAvailability RD (calls w) b = Inl e"
  shows "availabilityRequest lib RD cachedResults [b] w =
           (Rejected e, w\<lparr>calls := calls w @ [InstantAvailability b]\<rparr>)"
  using assms
  by (simp add: availabilityRequest_def promise_all_def io_defs)

lemma single_batch_malformed:
  assumes "torrents_instantAvailability RD (calls w) b = Inr (NonObject body)"
  shows "availabilityRequest lib RD cachedResults [b] w =
           (Rejected (ErrorObject None (Some (''RD returned non JSON response: '' @ body))),
            w\<lparr>calls := calls w @ [InstantAvailability b]\<rparr>)"
  using assms
  by (simp add: availabilityRequest_def promise_all_def io_defs)

lemma all_batches_rejected:
  assumes "\<forall>batch \<in> set hashBatches. \<forall>h. \<exists>e. torrents_instantAvailability RD h batch = Inl e \<and> P e"
    and "hashBatches \<noteq> []"
  shows "\<exists>e. availabilityRequest lib RD cachedResults hashBatches w =
           (Rejected e, w\<lparr>calls := calls w @ map InstantAvailability hashBatches\<rparr>) \<and> P e"
proof -
  let ?k = "\<lambda>batch response.
                       case response of
                         NonObject text \<Rightarrow>
                           reject_io (ErrorObject None
                             (Some (''RD returned non JSON response: '' @ text)))
                       | NullResponse \<Rightarrow>
                           reject_io (TypeError ''Cannot convert undefined or null to object'')
                       | ResponseObject entries \<Rightarrow>
                           resolve_io (processAvailabilityResults (lib_isVideo lib) entries)"
  let ?ms = "map (\<lambda>batch.
                  bind_io
                    (rd_call (InstantAvailability batch)
                       (\<lambda>h. torrents_instantAvailability RD h batch))
                    (?k batch))
             hashBatches"
  let ?first = "\<lambda>w. first_rejected RD (calls w)"
  obtain rs w1 where st: "settle_all ?ms w = (rs, w1)"
    by (cases "settle_all ?ms w")
  have a: "\<forall>batch \<in> set hashBatches. \<forall>h. \<exists>e.
      (\<lambda>batch h. torrents_instantAvailability RD h batch) batch h = Inl e \<and> P e"
    using assms(1) by simp
  from settle_batches_rejected [OF st a]
  have all: "\<forall>r \<in> set (fst (settle_all ?ms w)). \<exists>e. r = Rejected e \<and> P e"
    using st by simp
  have ne: "?ms \<noteq> []"
    using assms(2) by simp
  from promise_all_all_rejected [OF all ne, of ?first]
  obtain e where e: "fst (promise_all ?first ?ms w) = Rejected e" "P e"
    by blast
  obtain r w' where req: "availabilityRequest lib RD cachedResults hashBatches w = (r, w')"
    by (cases "availabilityRequest lib RD cachedResults hashBatches w")
  obtain w2 where p: "promise_all ?first ?ms w = (Rejected e, w2)"
    using e(1) by (cases "promise_all ?first ?ms w") simp
  have "availabilityRequest lib RD cachedResults hashBatches w = (Rejected e, w2)"
    unfolding availabilityRequest_def
    using bind_io_cases [where m = "promise_all ?first ?ms" and w = w, OF p]
    by (simp only: outcome.case)
  with req have "r = Rejected e"
    by simp
  with availabilityRequest_state [OF req] req e(2) show ?thesis
    by auto
qed

lemma chunkArray_not_empty: "chunkArray arr n \<noteq> []"
  by (subst chunkArray.simps) simp

lemmas avail_defs = availabilityRequest_def promise_all_def getCachedAvailabilityResults_def
  cacheAvailabilityResults_def processAvailabilityResults_def nonBlacklistError_def
  NON_BLACKLIST_ERRORS_def availability_client_def empty_body_client_def bad_token_client_def
  malformed_client_def mixed_client_def cached_world_def

lemma getInstantAvailable_returns:
  "1 \<le> maxChunkSize \<Longrightarrow> 151 * nat retries + maxChunkSize < fuel \<Longrightarrow>
   fst (getInstantAvailable' fuel lib RD hashes retries maxChunkSize w) \<noteq> OutOfFuel"
proof (induction fuel arbitrary: retries maxChunkSize w)
  case 0
  then show ?case by simp
next
  case (Suc n)
  let ?cached = "availability_cache w |` set hashes"
  let ?missing = "filter (\<lambda>infoHash. ?cached infoHash = None) hashes"
  show ?case
  proof (cases "?missing = []")
    case True
    then show ?thesis
      by (simp add: getCachedAvailabilityResults_def bind_io_def resolve_io_def)
  next
    case False
    obtain r1 w1 where r: "availabilityRequest lib RD ?cached (chunkArray ?missing maxChunkSize) w = (r1, w1)"
      by (cases "availabilityRequest lib RD ?cached (chunkArray ?missing maxChunkSize) w")
    have nf: "r1 \<noteq> OutOfFuel"
      using availabilityRequest_fuel [of lib RD ?cached "chunkArray ?missing maxChunkSize" w] r by simp
    have shrink: "maxChunkSize \<noteq> 1 \<Longrightarrow>
        fst (getInstantAvailable' n lib RD hashes (retries - 1) ((maxChunkSize + 9) div 10) w1) \<noteq> OutOfFuel"
      using Suc.prems by (intro Suc.IH) auto
    have again: "0 < retries \<Longrightarrow>
        fst (getInstantAvailable' n lib RD hashes (retries - 1) 150 w1) \<noteq> OutOfFuel"
      using Suc.prems by (intro Suc.IH) auto
    show ?thesis
      using False r nf shrink again
      by (cases r1)
         (auto simp: getCachedAvailabilityResults_def bind_io_def catch_io_def resolve_io_def
            reject_io_def split: js_error.splits)
  qed
qed

text \<open>
  C6. For every hash list whose entries are all present in the availability cache, the
  lookup returns the cached results of these hashes and leaves the world as it is: no
  call to the provider is recorded, whatever the provider, the retry budget and the
  batch size are.
\<close>

theorem cached_hashes_no_provider_call:
  assumes "\<forall>infoHash \<in> set hashes. availability_cache w infoHash \<noteq> None"
  shows "getInstantAvailable' (Suc n) lib RD hashes retries maxChunkSize w =
           (Resolved (Some (availability_cache w |` set hashes)), w) \<and>
         (\<forall>infoHash \<in> set hashes.
            (availability_cache w |` set hashes) infoHash = availability_cache w infoHash)"
proof -
  have "filter (\<lambda>infoHash. (availability_cache w |` set hashes) infoHash = None) hashes = []"
    using assms by (auto simp: filter_empty_conv restrict_map_def)
  then show ?thesis
    by (simp add: getCachedAvailabilityResults_def bind_io_def resolve_io_def)
qed

theorem cached_hashes_no_provider_call_witness:
  "availability_cache cached_world ''h1'' \<noteq> None \<and>
   availability_cache cached_world ''h2'' \<noteq> None \<and>
   getInstantAvailable' (Suc 0) demo_library bad_token_client [''h1'', ''h2''] 3 150 cached_world =
     (Resolved (Some (availability_cache cached_world |` set [''h1'', ''h2''])), cached_world) \<and>
   calls cached_world = [] \<and>
   (availability_cache cached_world |` set [''h1'', ''h2'']) ''h1'' = Some [[''1'', ''2'']]"
proof -
  have c: "\<forall>infoHash \<in> set [''h1'', ''h2'']. availability_cache cached_world infoHash \<noteq> None"
    by (simp add: cached_world_def)
  from cached_hashes_no_provider_call [OF c, of 0 demo_library bad_token_client 3 150] c
  show ?thesis
    by (simp add: cached_world_def)
qed

text \<open>
  C5 (as stated, refuted). The provider rejects the batch \<open>[h3]\<close> with the bad-token
  code 8 and every other batch with an empty error, and in each round the rejection of
  the first batch settles first. The lookup for three hashes is not rejected with
  \<open>BadTokenError\<close>: the rejection with code 8 does not reach the handler, the lookup is
  retried with the batch sizes 15, 2 and 1, the batch \<open>[h3]\<close> is requested and rejected
  with code 8 twice, and the lookup ends with a \<open>TypeError\<close>.
\<close>

theorem bad_token_dropped_behind_empty_error:
  "torrents_instantAvailability mixed_client
     [InstantAvailability [''h1'', ''h2'', ''h3''], InstantAvailability [''h1'', ''h2'', ''h3''],
      InstantAvailability [''h1'', ''h2'']] [''h3'']
     = Inl (ErrorObject (Some 8) (Some ''Bad token'')) \<and>
   getInstantAvailable' (Suc (Suc (Suc (Suc 0)))) demo_library mixed_client
     [''h1'', ''h2'', ''h3''] 3 150 empty_world =
   (Rejected (TypeError ''Cannot read properties of undefined (reading 'message')''),
    empty_world\<lparr>calls :=
      [InstantAvailability [''h1'', ''h2'', ''h3''],
       InstantAvailability [''h1'', ''h2'', ''h3''],
       InstantAvailability [''h1'', ''h2''], InstantAvailability [''h3''],
       InstantAvailability [''h1''], InstantAvailability [''h2''],
       InstantAvailability [''h3'']]\<rparr>)"
  by (simp add: avail_defs io_defs chunkArray.simps demo_defs restrict_map_def)

text \<open>
  C5 (amended). When the rejection that reaches the handler of the availability check,
  the first of the round's batch requests to be rejected, has the bad-token code 8, the
  lookup is rejected with \<open>BadTokenError\<close> and the provider was called once per batch of
  this round and not again, whatever the retry budget is. This is the case when the round
  has one batch and the provider rejects it with code 8, and when the provider rejects
  every batch of the round with code 8, in whatever order the rejections settle. A
  rejection with code 8 that settles after the rejection of another batch does not reach
  the handler.
\<close>

theorem bad_token_rejection_not_retried:
  assumes missing: "filter (\<lambda>infoHash. availability_cache w infoHash = None) hashes \<noteq> []"
  shows "(availabilityRequest lib RD (availability_cache w |` set hashes)
            (chunkArray (filter (\<lambda>infoHash. availability_cache w infoHash = None) hashes) maxChunkSize) w
            = (Rejected error, w') \<and> error_code error = Some 8 \<longrightarrow>
          getInstantAvailable' (Suc n) lib RD hashes retries maxChunkSize w
            = (Rejected BadTokenError, w') \<and>
          w' = w\<lparr>calls := calls w @ map InstantAvailability
            (chunkArray (filter (\<lambda>infoHash. availability_cache w infoHash = None) hashes) maxChunkSize)\<rparr>) \<and>
         (chunkArray (filter (\<lambda>infoHash. availability_cache w infoHash = None) hashes) maxChunkSize = [b] \<and>
          torrents_instantAvailability RD (calls w) b = Inl error \<and> error_code error = Some 8 \<longrightarrow>
          getInstantAvailable' (Suc n) lib RD hashes retries maxChunkSize w
            = (Rejected BadTokenError, w\<lparr>calls := calls w @ [InstantAvailability b]\<rparr>)) \<and>
         ((\<forall>batch \<in> set (chunkArray (filter (\<lambda>infoHash. availability_cache w infoHash = None) hashes)
                           maxChunkSize).
             \<forall>h. \<exists>e. torrents_instantAvailability RD h batch = Inl e \<and> error_code e = Some 8) \<longrightarrow>
          getInstantAvailable' (Suc n) lib RD hashes retries maxChunkSize w
            = (Rejected BadTokenError,
               w\<lparr>calls := calls w @ map InstantAvailability
                 (chunkArray (filter (\<lambda>infoHash. availability_cache w infoHash = None) hashes)
                    maxChunkSize)\<rparr>))"
proof -
  let ?missing = "filter (\<lambda>infoHash. availability_cache w infoHash = None) hashes"
  let ?cached = "availability_cache w |` set hashes"
  let ?batches = "chunkArray ?missing maxChunkSize"
  have m: "filter (\<lambda>infoHash. ?cached infoHash = None) hashes = ?missing"
    by (rule filter_cong) (auto simp: restrict_map_def)
  have step: "\<And>e w1. availabilityRequest lib RD ?cached ?batches w = (Rejected e, w1) \<Longrightarrow>
      error_code e = Some 8 \<Longrightarrow>
      getInstantAvailable' (Suc n) lib RD hashes retries maxChunkSize w = (Rejected BadTokenError, w1)"
    using missing error_code_truthy
    by (simp add: m getCachedAvailabilityResults_def bind_io_def catch_io_def reject_io_def)
  have first: "availabilityRequest lib RD ?cached ?batches w = (Rejected error, w') \<and>
          error_code error = Some 8 \<longrightarrow>
          getInstantAvailable' (Suc n) lib RD hashes retries maxChunkSize w
            = (Rejected BadTokenError, w') \<and>
          w' = w\<lparr>calls := calls w @ map InstantAvailability ?batches\<rparr>"
    using step availabilityRequest_state by blast
  have single: "?batches = [b] \<and>
          torrents_instantAvailability RD (calls w) b = Inl error \<and> error_code error = Some 8 \<longrightarrow>
          getInstantAvailable' (Suc n) lib RD hashes retries maxChunkSize w
            = (Rejected BadTokenError, w\<lparr>calls := calls w @ [InstantAvailability b]\<rparr>)"
  proof (intro impI, elim conjE)
    assume b: "?batches = [b]"
      and a: "torrents_instantAvailability RD (calls w) b = Inl error"
      and c: "error_code error = Some 8"
    from single_batch_rejected [OF a, of lib ?cached] b
    have "availabilityRequest lib RD ?cached ?batches w
            = (Rejected error, w\<lparr>calls := calls w @ [InstantAvailability b]\<rparr>)"
      by simp
    from step [OF this c]
    show "getInstantAvailable' (Suc n) lib RD hashes retries maxChunkSize w
            = (Rejected BadTokenError, w\<lparr>calls := calls w @ [InstantAvailability b]\<rparr>)" .
  qed
  have every: "(\<forall>batch \<in> set ?batches.
             \<forall>h. \<exists>e. torrents_instantAvailability RD h batch = Inl e \<and> error_code e = Some 8) \<longrightarrow>
          getInstantAvailable' (Suc n) lib RD hashes retries maxChunkSize w
            = (Rejected BadTokenError, w\<lparr>calls := calls w @ map InstantAvailability ?batches\<rparr>)"
  proof
    assume a: "\<forall>batch \<in> set ?batches.
             \<forall>h. \<exists>e. torrents_instantAvailability RD h batch = Inl e \<and> error_code e = Some 8"
    from all_batches_rejected [OF a chunkArray_not_empty, of lib ?cached w]
    obtain e where e: "availabilityRequest lib RD ?cached ?batches w =
           (Rejected e, w\<lparr>calls := calls w @ map InstantAvailability ?batches\<rparr>)"
      "error_code e = Some 8"
      by blast
    from step [OF e]
    show "getInstantAvailable' (Suc n) lib RD hashes retries maxChunkSize w
            = (Rejected BadTokenError, w\<lparr>calls := calls w @ map InstantAvailability ?batches\<rparr>)" .
  qed
  from first single every show ?thesis
    by (intro conjI)
qed

theorem bad_token_rejection_not_retried_witness:
  "filter (\<lambda>infoHash. availability_cache empty_world infoHash = None) [''h1''] \<noteq> [] \<and>
   torrents_instantAvailability bad_token_client (calls empty_world) [''h1'']
     = Inl (ErrorObject (Some 8) (Some ''Bad token'')) \<and>
   getInstantAvailable' (Suc 0) demo_library bad_token_client [''h1''] 3 150 empty_world =
     (Rejected BadTokenError, empty_world\<lparr>calls := [InstantAvailability [''h1'']]\<rparr>) \<and>
   getInstantAvailable' (Suc 0) demo_library bad_token_client [''h1'', ''h2'', ''h3''] 0 2
       empty_world =
     (Rejected BadTokenError,
      empty_world\<lparr>calls := [InstantAvailability [''h1'', ''h2''], InstantAvailability [''h3'']]\<rparr>)"
proof -
  have m: "filter (\<lambda>infoHash. availability_cache empty_world infoHash = None) [''h1''] \<noteq> []"
    and m3: "filter (\<lambda>infoHash. availability_cache empty_world infoHash = None)
               [''h1'', ''h2'', ''h3''] \<noteq> []"
    by (simp_all add: empty_world_def)
  have c: "chunkArray (filter (\<lambda>infoHash. availability_cache empty_world infoHash = None) [''h1'']) 150
      = [[''h1'']]"
    and c3: "chunkArray (filter (\<lambda>infoHash. availability_cache empty_world infoHash = None)
               [''h1'', ''h2'', ''h3'']) 2 = [[''h1'', ''h2''], [''h3'']]"
    by (simp_all add: chunkArray.simps empty_world_def)
  have r: "availabilityRequest demo_library bad_token_client
             (availability_cache empty_world |` set [''h1''])
             (chunkArray (filter (\<lambda>infoHash. availability_cache empty_world infoHash = None) [''h1'']) 150)
             empty_world
           = (Rejected (ErrorObject (Some 8) (Some ''Bad token'')),
              empty_world\<lparr>calls := [InstantAvailability [''h1'']]\<rparr>)"
    by (simp add: avail_defs io_defs chunkArray.simps empty_world_def)
  have a: "torrents_instantAvailability bad_token_client (calls empty_world) [''h1'']
     = Inl (ErrorObject (Some 8) (Some ''Bad token''))"
    by (simp add: avail_defs)
  have e: "\<forall>batch \<in> set (chunkArray (filter (\<lambda>infoHash. availability_cache empty_world infoHash = None)
               [''h1'', ''h2'', ''h3'']) 2).
             \<forall>h. \<exists>e. torrents_instantAvailability bad_token_client h batch = Inl e \<and>
                      error_code e = Some 8"
    by (simp add: avail_defs)
  from bad_token_rejection_not_retried [OF m, of demo_library bad_token_client 150
      "ErrorObject (Some 8) (Some ''Bad token'')"
      "empty_world\<lparr>calls := [InstantAvailability [''h1'']]\<rparr>" 0 3 "[''h1'']"]
    bad_token_rejection_not_retried [OF m3, of demo_library bad_token_client 2 _ _ 0 0]
    m r a c c3 e
  show ?thesis
    by (simp add: empty_world_def)
qed

text \<open>
  C4 (as stated, refuted). The provider rejects every availability call with an empty
  error. The lookup for three hashes with the default budget and batch size does not
  retry once: it retries three times, with the batch sizes 15, 2 and 1, and at batch
  size 1 the empty error makes the warning read \<open>error.message\<close> of \<open>undefined\<close>, so
  the lookup is rejected with a \<open>TypeError\<close> and does not resolve to the unknown result.
\<close>

theorem empty_error_retried_down_to_size_one:
  "getInstantAvailable' (Suc (Suc (Suc (Suc 0)))) demo_library empty_body_client
     [''h1'', ''h2'', ''h3''] 3 150 empty_world =
   (Rejected (TypeError ''Cannot read properties of undefined (reading 'message')''),
    empty_world\<lparr>calls :=
      [InstantAvailability [''h1'', ''h2'', ''h3''],
       InstantAvailability [''h1'', ''h2'', ''h3''],
       InstantAvailability [''h1'', ''h2''], InstantAvailability [''h3''],
       InstantAvailability [''h1''], InstantAvailability [''h2''],
       InstantAvailability [''h3'']]\<rparr>)"
  by (simp add: avail_defs io_defs chunkArray.simps demo_defs restrict_map_def)

text \<open>
  C4 (amended). When the rejection that reaches the handler of the availability check is
  an empty (falsy) error and the batch size is not 1, the lookup is retried with the
  batch size divided by 10 and rounded up, whatever the retry budget is; the new size is
  at least 1 and smaller, so on further empty errors the size goes down to 1 (150, 15,
  2, 1). A response that is not an object is an ordinary error, not an empty one; in a
  round of one batch it is the rejection that reaches the handler. An ordinary error
  other than the bad token, once no transient retry applies, resolves to the unknown
  result and is not thrown. With a batch size of at least 1 the lookup returns: fuel
  above \<open>151 * retries + maxChunkSize\<close> is enough.
\<close>

theorem empty_error_shrinks_batch:
  assumes missing: "filter (\<lambda>infoHash. availability_cache w infoHash = None) hashes \<noteq> []"
    and rejected:
      "availabilityRequest lib RD (availability_cache w |` set hashes)
         (chunkArray (filter (\<lambda>infoHash. availability_cache w infoHash = None) hashes) maxChunkSize) w
         = (Rejected error, w')"
  shows "(\<not> truthy error \<and> maxChunkSize \<noteq> 1 \<longrightarrow>
            getInstantAvailable' (Suc n) lib RD hashes retries maxChunkSize w =
              getInstantAvailable' n lib RD hashes (retries - 1) ((maxChunkSize + 9) div 10) w') \<and>
         (2 \<le> maxChunkSize \<longrightarrow>
            1 \<le> (maxChunkSize + 9) div 10 \<and> (maxChunkSize + 9) div 10 < maxChunkSize) \<and>
         (chunkArray (filter (\<lambda>infoHash. availability_cache w infoHash = None) hashes) maxChunkSize
            = [b] \<and>
          torrents_instantAvailability RD (calls w) b = Inr (NonObject body) \<longrightarrow>
            error = ErrorObject None (Some (''RD returned non JSON response: '' @ body)) \<and>
            truthy error) \<and>
         (truthy error \<and> error_code error \<noteq> Some 8 \<and> \<not> (0 < retries \<and> nonBlacklistError error) \<longrightarrow>
            getInstantAvailable' (Suc n) lib RD hashes retries maxChunkSize w = (Resolved None, w')) \<and>
         (1 \<le> maxChunkSize \<and> 151 * nat retries + maxChunkSize < fuel \<longrightarrow>
            fst (getInstantAvailable' fuel lib RD hashes retries maxChunkSize w) \<noteq> OutOfFuel)"
proof -
  let ?missing = "filter (\<lambda>infoHash. availability_cache w infoHash = None) hashes"
  let ?cached = "availability_cache w |` set hashes"
  have m: "filter (\<lambda>infoHash. ?cached infoHash = None) hashes = ?missing"
    by (rule filter_cong) (auto simp: restrict_map_def)
  have shrink: "\<not> truthy error \<and> maxChunkSize \<noteq> 1 \<longrightarrow>
            getInstantAvailable' (Suc n) lib RD hashes retries maxChunkSize w =
              getInstantAvailable' n lib RD hashes (retries - 1) ((maxChunkSize + 9) div 10) w'"
    using missing rejected
    by (auto simp: m getCachedAvailabilityResults_def bind_io_def catch_io_def)
  have size: "2 \<le> maxChunkSize \<longrightarrow>
            1 \<le> (maxChunkSize + 9) div 10 \<and> (maxChunkSize + 9) div 10 < maxChunkSize"
    by auto
  have malformed: "chunkArray ?missing maxChunkSize = [b] \<and>
          torrents_instantAvailability RD (calls w) b = Inr (NonObject body) \<longrightarrow>
            error = ErrorObject None (Some (''RD returned non JSON response: '' @ body)) \<and>
            truthy error"
  proof (intro impI, elim conjE)
    assume bs: "chunkArray ?missing maxChunkSize = [b]"
      and a: "torrents_instantAvailability RD (calls w) b = Inr (NonObject body)"
    from single_batch_malformed [OF a, of lib ?cached] bs rejected
    have "error = ErrorObject None (Some (''RD returned non JSON response: '' @ body))"
      by simp
    then show "error = ErrorObject None (Some (''RD returned non JSON response: '' @ body)) \<and>
            truthy error"
      by simp
  qed
  have unknown: "truthy error \<and> error_code error \<noteq> Some 8 \<and>
            \<not> (0 < retries \<and> nonBlacklistError error) \<longrightarrow>
            getInstantAvailable' (Suc n) lib RD hashes retries maxChunkSize w = (Resolved None, w')"
    using missing rejected
    by (cases error)
       (auto simp: m getCachedAvailabilityResults_def bind_io_def catch_io_def resolve_io_def)
  have returns: "1 \<le> maxChunkSize \<and> 151 * nat retries + maxChunkSize < fuel \<longrightarrow>
            fst (getInstantAvailable' fuel lib RD hashes retries maxChunkSize w) \<noteq> OutOfFuel"
    using getInstantAvailable_returns by blast
  from shrink size malformed unknown returns show ?thesis
    by (intro conjI)
qed

theorem empty_error_shrinks_batch_witness:
  "getInstantAvailable' (Suc (Suc 0)) demo_library empty_body_client [''h1''] 3 150 empty_world =
     getInstantAvailable' (Suc 0) demo_library empty_body_client [''h1''] 2 15
       (empty_world\<lparr>calls := [InstantAvailability [''h1'']]\<rparr>) \<and>
   getInstantAvailable' (Suc 0) demo_library malformed_client [''h1''] 3 150 empty_world =
     (Resolved None, empty_world\<lparr>calls := [InstantAvailability [''h1'']]\<rparr>) \<and>
   fst (getInstantAvailable' 604 demo_library empty_body_client [''h1''] 3 150 empty_world)
     \<noteq> OutOfFuel"
proof -
  have m: "filter (\<lambda>infoHash. availability_cache empty_world infoHash = None) [''h1''] \<noteq> []"
    by (simp add: empty_world_def)
  have c: "chunkArray (filter (\<lambda>infoHash. availability_cache empty_world infoHash = None) [''h1'']) 150
      = [[''h1'']]"
    by (simp add: chunkArray.simps empty_world_def)
  have r1: "availabilityRequest demo_library empty_body_client
             (availability_cache empty_world |` set [''h1''])
             (chunkArray (filter (\<lambda>infoHash. availability_cache empty_world infoHash = None) [''h1'']) 150)
             empty_world
           = (Rejected Nullish, empty_world\<lparr>calls := [InstantAvailability [''h1'']]\<rparr>)"
    by (simp add: avail_defs io_defs chunkArray.simps empty_world_def)
  have r2: "availabilityRequest demo_library malformed_client
             (availability_cache empty_world |` set [''h1''])
             (chunkArray (filter (\<lambda>infoHash. availability_cache empty_world infoHash = None) [''h1'']) 150)
             empty_world
           = (Rejected (ErrorObject None (Some ''RD returned non JSON response: <html>busy</html>'')),
              empty_world\<lparr>calls := [InstantAvailability [''h1'']]\<rparr>)"
    by (simp add: avail_defs io_defs chunkArray.simps empty_world_def)
  have a: "torrents_instantAvailability malformed_client (calls empty_world) [''h1'']
      = Inr (NonObject ''<html>busy</html>'')"
    by (simp add: avail_defs)
  have t: "truthy (ErrorObject None (Some ''RD returned non JSON response: <html>busy</html>'')) \<and>
      error_code (ErrorObject None (Some ''RD returned non JSON response: <html>busy</html>'')) \<noteq> Some 8 \<and>
      \<not> (0 < (3::int) \<and> nonBlacklistError
             (ErrorObject None (Some ''RD returned non JSON response: <html>busy</html>'')))"
    by (simp add: nonBlacklistError_def NON_BLACKLIST_ERRORS_def)
  have e: "\<not> truthy Nullish \<and> (150::nat) \<noteq> 1"
    by simp
  have f: "1 \<le> (150::nat) \<and> 151 * nat 3 + 150 < (604::nat)"
    by simp
  from empty_error_shrinks_batch [OF m r1, of 1 3 "[''h1'']" "[]" 604]
    empty_error_shrinks_batch [OF m r2, of 0 3 "[''h1'']" "''<html>busy</html>''" 604] e t f c a
  show ?thesis
    by simp
qed

subsection \<open>The response cache\<close>

lemmas cache_defs = cacheWrapStream_def cacheWrap_def cache_wrap_def initiateRemoteCache_def

lemmas addon_demo_defs = demo_addon_env_def demo_addon_library_def demo_addon_state_def
  STREAM_KEY_PREFIX_def GLOBAL_KEY_PREFIX_def STREAM_TTL_def STREAM_EMPTY_TTL_def

text \<open>
  C7. With caching enabled, the stream-list cache stores an empty computed result with
  the short TTL (\<open>STREAM_EMPTY_TTL\<close>, 30 minutes by default) and a non-empty result with
  the long TTL (\<open>STREAM_TTL\<close>, 4 hours by default), and on a hit before the expiry of the
  entry it returns the cached value whatever the supplied compute function is: the
  function is not invoked, and only the access is logged.
\<close>

theorem stream_cache_ttl_and_hit:
  assumes enabled: "\<not> env_NO_CACHE env"
  shows "((case remote_store s (STREAM_KEY_PREFIX @ '':'' @ ident) of
             None \<Rightarrow> True
           | Some e \<Rightarrow> \<not> clock s < entry_stored e + entry_ttl e) \<and>
          method (s\<lparr>addon_log := addon_log s @ [CacheWrap (STREAM_KEY_PREFIX @ '':'' @ ident)]\<rparr>)
            = (Resolved v, s') \<longrightarrow>
          cacheWrapStream env ident method s =
            (Resolved v,
             s'\<lparr>remote_store := (remote_store s')
                  (STREAM_KEY_PREFIX @ '':'' @ ident \<mapsto>
                     \<lparr>entry_value = v,
                      entry_ttl = (if v = [] then STREAM_EMPTY_TTL env else STREAM_TTL env),
                      entry_stored = clock s'\<rparr>)\<rparr>)) \<and>
         (remote_store s (STREAM_KEY_PREFIX @ '':'' @ ident) = Some e \<and>
          clock s < entry_stored e + entry_ttl e \<longrightarrow>
          cacheWrapStream env ident method2 s =
            (Resolved (entry_value e),
             s\<lparr>addon_log := addon_log s @ [CacheWrap (STREAM_KEY_PREFIX @ '':'' @ ident)]\<rparr>)) \<and>
         (env_STREAM_TTL env = None \<and> env_STREAM_EMPTY_TTL env = None \<longrightarrow>
          STREAM_EMPTY_TTL env = 30 * 60 \<and> STREAM_TTL env = 4 * 60 * 60 \<and>
          STREAM_EMPTY_TTL env < STREAM_TTL env)"
  using enabled
  by (auto simp: cache_defs Let_def STREAM_TTL_def STREAM_EMPTY_TTL_def split: option.splits)

theorem stream_cache_ttl_and_hit_witness:
  "cacheWrapStream (env_cache demo_addon_env) ''tt1'' (resolve_io []) demo_addon_state =
     (Resolved [],
      demo_addon_state
        \<lparr>addon_log := [CacheWrap ''torrentio-addon|stream:tt1''],
         remote_store := [''torrentio-addon|stream:tt1'' \<mapsto>
            \<lparr>entry_value = [], entry_ttl = 1800, entry_stored = 1000\<rparr>]\<rparr>) \<and>
   cacheWrapStream (env_cache demo_addon_env) ''tt1'' (resolve_io [''a'']) demo_addon_state =
     (Resolved [''a''],
      demo_addon_state
        \<lparr>addon_log := [CacheWrap ''torrentio-addon|stream:tt1''],
         remote_store := [''torrentio-addon|stream:tt1'' \<mapsto>
            \<lparr>entry_value = [''a''], entry_ttl = 14400, entry_stored = 1000\<rparr>]\<rparr>) \<and>
   cacheWrapStream (env_cache demo_addon_env) ''tt1'' (reject_io Nullish)
       (demo_addon_state
          \<lparr>remote_store := [''torrentio-addon|stream:tt1'' \<mapsto>
              \<lparr>entry_value = [''a''], entry_ttl = 14400, entry_stored = 1000\<rparr>],
           clock := 15399\<rparr>) =
     (Resolved [''a''],
      demo_addon_state
        \<lparr>remote_store := [''torrentio-addon|stream:tt1'' \<mapsto>
            \<lparr>entry_value = [''a''], entry_ttl = 14400, entry_stored = 1000\<rparr>],
         clock := 15399,
         addon_log := [CacheWrap ''torrentio-addon|stream:tt1'']\<rparr>)"
proof -
  have enabled: "\<not> env_NO_CACHE (env_cache demo_addon_env)"
    by (simp add: demo_addon_env_def)
  note t = stream_cache_ttl_and_hit [OF enabled]
  from t [of demo_addon_state "''tt1''" "resolve_io []" "[]"
        "demo_addon_state\<lparr>addon_log := [CacheWrap ''torrentio-addon|stream:tt1'']\<rparr>"]
    t [of demo_addon_state "''tt1''" "resolve_io [''a'']" "[''a'']"
        "demo_addon_state\<lparr>addon_log := [CacheWrap ''torrentio-addon|stream:tt1'']\<rparr>"]
    t [of "demo_addon_state
          \<lparr>remote_store := [''torrentio-addon|stream:tt1'' \<mapsto>
              \<lparr>entry_value = [''a''], entry_ttl = 14400, entry_stored = 1000\<rparr>],
           clock := 15399\<rparr>" "''tt1''" _ _ _
          "\<lparr>entry_value = [''a''], entry_ttl = 14400, entry_stored = 1000\<rparr>" "reject_io Nullish"]
  show ?thesis
    by (simp add: addon_demo_defs resolve_io_def)
qed

subsection \<open>The admission-controlled scheduler\<close>





text \<open>
  With a text for \<open>highWater\<close>, the queue is never found at its bound: the task of the
  request runs, whatever the scheduler holds.
\<close>

lemma text_highWater_schedules:
  "setting_highWater settings = Text t \<Longrightarrow>
   scheduleBy settings task s = task (s\<lparr>addon_log := addon_log s @ [JobScheduled]\<rparr>)"
  by (simp add: scheduleBy_def)

subsection \<open>The stream handler\<close>

lemma searchPattern_iff: "searchPattern p s \<longleftrightarrow> (\<exists>pre suf. s = pre @ suf \<and> p suf)"
proof (induction s)
  case Nil
  then show ?case by simp
next
  case (Cons c cs)
  show ?case
  proof
    assume "searchPattern p (c # cs)"
    then consider "p (c # cs)" | "searchPattern p cs" by auto
    then show "\<exists>pre suf. c # cs = pre @ suf \<and> p suf"
    proof cases
      case 1
      then show ?thesis by (intro exI [of _ "[]"] exI [of _ "c # cs"]) simp
    next
      case 2
      with Cons.IH obtain pre suf where "cs = pre @ suf" "p suf" by blast
      then show ?thesis by (intro exI [of _ "c # pre"] exI [of _ suf]) simp
    qed
  next
    assume "\<exists>pre suf. c # cs = pre @ suf \<and> p suf"
    then obtain pre suf where ps: "c # cs = pre @ suf" "p suf" by blast
    show "searchPattern p (c # cs)"
    proof (cases pre)
      case Nil
      with ps have "p (c # cs)" by simp
      then show ?thesis by simp
    next
      case (Cons a pre')
      with ps have "cs = pre' @ suf" by simp
      with ps(2) Cons.IH show ?thesis by auto
    qed
  qed
qed

lemma startsWithIgnoreCase_iff:
  "startsWithIgnoreCase s literal \<longleftrightarrow>
   (\<exists>l rest. s = l @ rest \<and> map toLowerChar l = map toLowerChar literal)"
proof (induction s literal rule: startsWithIgnoreCase.induct)
  case (1 s)
  then show ?case by simp
next
  case (2 p ps)
  then show ?case by simp
next
  case (3 c cs p ps)
  show ?case
  proof
    assume "startsWithIgnoreCase (c # cs) (p # ps)"
    with 3 obtain l rest where "toLowerChar c = toLowerChar p" "cs = l @ rest"
      "map toLowerChar l = map toLowerChar ps" by auto
    then show "\<exists>l rest. c # cs = l @ rest \<and> map toLowerChar l = map toLowerChar (p # ps)"
      by (intro exI [of _ "c # l"] exI [of _ rest]) simp
  next
    assume "\<exists>l rest. c # cs = l @ rest \<and> map toLowerChar l = map toLowerChar (p # ps)"
    then obtain l rest where lr: "c # cs = l @ rest" "map toLowerChar l = map toLowerChar (p # ps)"
      by blast
    then obtain l' where "l = c # l'" by (cases l) auto
    with lr 3 show "startsWithIgnoreCase (c # cs) (p # ps)" by auto
  qed
qed

lemma literalThenDigit_iff:
  "literalThenDigit literal s \<longleftrightarrow>
   (\<exists>l d rest. s = l @ d # rest \<and> map toLowerChar l = map toLowerChar literal \<and> isDigit d)"
proof
  assume a: "literalThenDigit literal s"
  then obtain l rest where lr: "s = l @ rest" "map toLowerChar l = map toLowerChar literal"
    unfolding literalThenDigit_def startsWithIgnoreCase_iff by blast
  from lr(2) have len: "length l = length literal"
    by (rule map_eq_imp_length_eq)
  with a lr obtain d rest' where "rest = d # rest'" "isDigit d"
    by (cases rest) (auto simp: literalThenDigit_def)
  with lr show "\<exists>l d rest. s = l @ d # rest \<and> map toLowerChar l = map toLowerChar literal \<and> isDigit d"
    by blast
next
  assume "\<exists>l d rest. s = l @ d # rest \<and> map toLowerChar l = map toLowerChar literal \<and> isDigit d"
  then obtain l d rest where lr: "s = l @ d # rest" "map toLowerChar l = map toLowerChar literal"
    "isDigit d" by blast
  from lr(2) have len: "length l = length literal"
    by (rule map_eq_imp_length_eq)
  have "startsWithIgnoreCase s literal"
    unfolding startsWithIgnoreCase_iff using lr by blast
  with lr len show "literalThenDigit literal s"
    by (simp add: literalThenDigit_def)
qed

lemma searchLiteral_iff:
  "searchPattern (literalThenDigit literal) s \<longleftrightarrow>
   (\<exists>pre l d rest. s = pre @ l @ d # rest \<and> map toLowerChar l = map toLowerChar literal \<and>
      isDigit d)"
proof
  assume "searchPattern (literalThenDigit literal) s"
  then obtain pre suf where ps: "s = pre @ suf" "literalThenDigit literal suf"
    unfolding searchPattern_iff by blast
  from ps(2) obtain l d rest where
    "suf = l @ d # rest" "map toLowerChar l = map toLowerChar literal" "isDigit d"
    unfolding literalThenDigit_iff by blast
  with ps(1) have "s = pre @ l @ d # rest \<and> map toLowerChar l = map toLowerChar literal \<and>
      isDigit d"
    by simp
  then show "\<exists>pre l d rest. s = pre @ l @ d # rest \<and>
      map toLowerChar l = map toLowerChar literal \<and> isDigit d"
    by (intro exI)
next
  assume "\<exists>pre l d rest. s = pre @ l @ d # rest \<and>
      map toLowerChar l = map toLowerChar literal \<and> isDigit d"
  then obtain pre l d rest where
    a: "s = pre @ l @ d # rest" "map toLowerChar l = map toLowerChar literal" "isDigit d"
    by blast
  have "literalThenDigit literal (l @ d # rest)"
    unfolding literalThenDigit_iff using a(2,3) by (intro exI [of _ l] exI [of _ d] exI [of _ rest]) simp
  with a(1) show "searchPattern (literalThenDigit literal) s"
    unfolding searchPattern_iff by (intro exI [of _ pre] exI [of _ "l @ d # rest"]) simp
qed

lemmas match_defs = matchImdb_def matchKitsu_def literalThenDigit_def isDigit_def toLowerChar_def

text \<open>
  C10. For every request whose id matches neither \<open>/tt\d+/i\<close> nor \<open>/kitsu:\d+/i\<close>, the
  stream handler of both variants resolves to the empty stream list and leaves the state
  as it is, whatever the library and the environment are: the cache is not accessed, no
  job is submitted to the scheduler, and no record handler runs. An id matches when it
  holds, anywhere, the letters \<open>tt\<close> (or \<open>kitsu:\<close>) in any case followed by a digit.
\<close>

theorem unmatched_id_gives_empty_streams:
  assumes "\<not> matchImdb (arg_id args)" and "\<not> matchKitsu (arg_id args)"
  shows "defineStreamHandler env lib args s =
           (Resolved \<lparr>streams = [], cacheMaxAge = None, staleRevalidate = None, staleError = None\<rparr>, s) \<and>
         defineStreamHandler_v1 env lib args s =
           (Resolved \<lparr>streams = [], cacheMaxAge = None, staleRevalidate = None, staleError = None\<rparr>, s) \<and>
         (matchImdb ident \<longleftrightarrow>
            (\<exists>pre l d rest. ident = pre @ l @ d # rest \<and> map toLowerChar l = ''tt'' \<and> isDigit d)) \<and>
         (matchKitsu ident \<longleftrightarrow>
            (\<exists>pre l d rest. ident = pre @ l @ d # rest \<and> map toLowerChar l = ''kitsu:'' \<and> isDigit d))"
proof (intro conjI)
  show "defineStreamHandler env lib args s =
           (Resolved \<lparr>streams = [], cacheMaxAge = None, staleRevalidate = None, staleError = None\<rparr>, s)"
    using assms by (simp add: defineStreamHandler_def resolve_io_def)
  show "defineStreamHandler_v1 env lib args s =
           (Resolved \<lparr>streams = [], cacheMaxAge = None, staleRevalidate = None, staleError = None\<rparr>, s)"
    using assms by (simp add: defineStreamHandler_v1_def resolve_io_def)
  have l1: "map toLowerChar ''tt'' = ''tt''"
    by (simp add: toLowerChar_def)
  show "matchImdb ident \<longleftrightarrow>
      (\<exists>pre l d rest. ident = pre @ l @ d # rest \<and> map toLowerChar l = ''tt'' \<and> isDigit d)"
    unfolding matchImdb_def searchLiteral_iff l1 ..
  have l2: "map toLowerChar ''kitsu:'' = ''kitsu:''"
    by (simp add: toLowerChar_def)
  show "matchKitsu ident \<longleftrightarrow>
      (\<exists>pre l d rest. ident = pre @ l @ d # rest \<and> map toLowerChar l = ''kitsu:'' \<and> isDigit d)"
    unfolding matchKitsu_def searchLiteral_iff l2 ..
qed

theorem unmatched_id_gives_empty_streams_witness:
  "\<not> matchImdb ''abc:1'' \<and> \<not> matchKitsu ''abc:1'' \<and> matchImdb ''xTt0111161'' \<and>
   matchKitsu ''kitsu:42:3'' \<and>
   defineStreamHandler demo_addon_env demo_addon_library
       \<lparr>arg_type = ''movie'', arg_id = ''abc:1''\<rparr> demo_addon_state =
     (Resolved \<lparr>streams = [], cacheMaxAge = None, staleRevalidate = None, staleError = None\<rparr>,
      demo_addon_state) \<and>
   defineStreamHandler_v1 demo_addon_env demo_addon_library
       \<lparr>arg_type = ''movie'', arg_id = ''abc:1''\<rparr> demo_addon_state =
     (Resolved \<lparr>streams = [], cacheMaxAge = None, staleRevalidate = None, staleError = None\<rparr>,
      demo_addon_state)"
proof -
  have a: "\<not> matchImdb (arg_id \<lparr>arg_type = ''movie'', arg_id = ''abc:1''\<rparr>)"
    and b: "\<not> matchKitsu (arg_id \<lparr>arg_type = ''movie'', arg_id = ''abc:1''\<rparr>)"
    by (simp_all add: match_defs)
  have c: "matchImdb ''xTt0111161'' \<and> matchKitsu ''kitsu:42:3''"
    by (simp add: match_defs)
  from unmatched_id_gives_empty_streams [OF a b, of demo_addon_env demo_addon_library
      demo_addon_state "''abc:1''"] a b c
  show ?thesis by simp
qed

text \<open>A request with a matching id goes through the cache, the scheduler and the lookup.\<close>

lemma matched_id_runs_pipeline:
  "defineStreamHandler demo_addon_env demo_addon_library
       \<lparr>arg_type = ''movie'', arg_id = ''tt123''\<rparr> demo_addon_state =
     (Resolved \<lparr>streams = [''9'', ''5''], cacheMaxAge = Some 14400,
                staleRevalidate = Some 14400, staleError = Some 604800\<rparr>,
      demo_addon_state
        \<lparr>addon_log := [CacheWrap ''torrentio-addon|stream:tt123'', JobScheduled],
         remote_store := [''torrentio-addon|stream:tt123'' \<mapsto>
            \<lparr>entry_value = [''9'', ''5''], entry_ttl = 14400, entry_stored = 1000\<rparr>]\<rparr>)"
  by (simp add: defineStreamHandler_def match_defs cache_defs computeStreams_def scheduleBy_def
      schedule_def submit_def limiter_def envOr_def streamHandler_def sortWith_def
      compareRecords_def io_defs addon_demo_defs CACHE_MAX_AGE_def STALE_REVALIDATE_AGE_def
      STALE_ERROR_AGE_def showInt_def digitChar_def Let_def)

end
